theory Spec2Isabelle
  imports Complex_Main
begin

section \<open>JavaScript values used by the payment code\<close>

subsection \<open>Numbers\<close>

text \<open>
  A JavaScript number is \<open>NaN\<close>, one of the two infinities, or a finite IEEE double.
  Finite values are kept as rationals; the values a program can hold are the rationals
  that are doubles, and every result that JavaScript rounds (a sum, a parsed literal) is
  rounded here by \<open>roundDouble\<close>. Comparison and remainder are exact on doubles. The
  negative zero is not told apart from zero: the payment code compares, adds, takes a
  remainder and tests for truth, and there the two zeros behave alike.
\<close>

datatype jsnum = NaN | NegInf | Fin rat | PosInf

text \<open>The integer nearest to \<open>q\<close>, the even one when two are equally near.\<close>

definition roundHalfEven :: "rat \<Rightarrow> int" where
  "roundHalfEven q =
     (let f = \<lfloor>q\<rfloor>; d = q - of_int f
      in if d < 1 / 2 then f else if 1 / 2 < d then f + 1 else if even f then f else f + 1)"

text \<open>
  A double is \<open>m * 2^e\<close> with \<open>\<bar>m\<bar> < 2^53\<close> and \<open>- 1074 \<le> e \<le> 971\<close>. The exponent used
  for \<open>q\<close> is the least one that leaves \<open>\<bar>q\<bar> / 2^e\<close> below \<open>2^53\<close> (\<open>- 1074\<close> in the
  subnormal range, \<open>971\<close> at most).
\<close>

definition ulpExponent :: "rat \<Rightarrow> int" where
  "ulpExponent q =
     (case find (\<lambda>e. \<bar>q\<bar> < 2 powi (e + 53)) [- 1074..970] of Some e \<Rightarrow> e | None \<Rightarrow> 971)"

text \<open>
  Rounding to the nearest double, ties to even; a value that rounds to \<open>2^1024\<close> or
  beyond becomes an infinity.
\<close>

definition roundDouble :: "rat \<Rightarrow> jsnum" where
  "roundDouble q =
     (let e = ulpExponent q; m = roundHalfEven (q / 2 powi e)
      in if e = 971 \<and> 2 ^ 53 \<le> m then PosInf
         else if e = 971 \<and> m \<le> - (2 ^ 53) then NegInf
         else Fin (of_int m * 2 powi e))"

fun js_less :: "jsnum \<Rightarrow> jsnum \<Rightarrow> bool" where
  "js_less (Fin x) (Fin y) = (x < y)"
| "js_less NegInf (Fin y) = True"
| "js_less NegInf PosInf = True"
| "js_less (Fin x) PosInf = True"
| "js_less _ _ = False"

definition js_gt :: "jsnum \<Rightarrow> jsnum \<Rightarrow> bool" where
  "js_gt x y = js_less y x"

fun js_le :: "jsnum \<Rightarrow> jsnum \<Rightarrow> bool" where
  "js_le NaN _ = False"
| "js_le _ NaN = False"
| "js_le x y = (x = y \<or> js_less x y)"

text \<open>The sum \<open>x + y\<close>, rounded.\<close>

fun js_add :: "jsnum \<Rightarrow> jsnum \<Rightarrow> jsnum" where
  "js_add (Fin x) (Fin y) = roundDouble (x + y)"
| "js_add NaN _ = NaN"
| "js_add _ NaN = NaN"
| "js_add PosInf NegInf = NaN"
| "js_add NegInf PosInf = NaN"
| "js_add PosInf _ = PosInf"
| "js_add _ PosInf = PosInf"
| "js_add NegInf _ = NegInf"
| "js_add _ NegInf = NegInf"

text \<open>
  The remainder \<open>x % y\<close>: the quotient is truncated towards zero, and the result is exact.
\<close>

definition truncate_rat :: "rat \<Rightarrow> int" where
  "truncate_rat q = (if 0 \<le> q then \<lfloor>q\<rfloor> else \<lceil>q\<rceil>)"

fun js_rem :: "jsnum \<Rightarrow> jsnum \<Rightarrow> jsnum" where
  "js_rem (Fin x) (Fin y) = (if y = 0 then NaN else Fin (x - y * of_int (truncate_rat (x / y))))"
| "js_rem (Fin x) PosInf = Fin x"
| "js_rem (Fin x) NegInf = Fin x"
| "js_rem _ _ = NaN"

subsection \<open>Strings\<close>

text \<open>
  A string is its list of UTF-16 code units, each a number below \<open>2^16\<close>; \<open>str\<close> writes
  an ASCII text as such a list.
\<close>

type_synonym jsstring = "nat list"

definition str :: "string \<Rightarrow> jsstring" where
  "str s = map of_char s"

text \<open>
  The code units that \<open>String.prototype.trim\<close> removes, and that the number syntax skips:
  the white space of the language (tab, vertical tab, form feed, space, no-break space,
  the other space separators of Unicode, the byte order mark) and its line terminators.
\<close>

definition isWhiteSpace :: "nat \<Rightarrow> bool" where
  "isWhiteSpace c =
     (c \<in> set [0x0009, 0x000A, 0x000B, 0x000C, 0x000D, 0x0020, 0x00A0, 0x1680,
               0x2000, 0x2001, 0x2002, 0x2003, 0x2004, 0x2005, 0x2006, 0x2007, 0x2008,
               0x2009, 0x200A, 0x2028, 0x2029, 0x202F, 0x205F, 0x3000, 0xFEFF])"

definition trim :: "jsstring \<Rightarrow> jsstring" where
  "trim s = rev (dropWhile isWhiteSpace (rev (dropWhile isWhiteSpace s)))"

text \<open>\<open>String(n)\<close> for an integer.\<close>

fun decimal :: "nat \<Rightarrow> jsstring" where
  "decimal n =
     (if n < 10 then [0x30 + n]
      else decimal (n div 10) @ [0x30 + n mod 10])"

declare decimal.simps [simp del]

definition intString :: "int \<Rightarrow> jsstring" where
  "intString i = (if i < 0 then 0x2D # decimal (nat (- i)) else decimal (nat i))"

text \<open>\<open>s.padStart(n, '0')\<close>.\<close>

definition padStart0 :: "nat \<Rightarrow> jsstring \<Rightarrow> jsstring" where
  "padStart0 n s = replicate (n - length s) 0x30 @ s"

subsection \<open>Reading a number from a string\<close>

definition isDigit :: "nat \<Rightarrow> bool" where
  "isDigit c = (0x30 \<le> c \<and> c \<le> 0x39)"

definition digitsValue :: "jsstring \<Rightarrow> nat" where
  "digitsValue ds = foldl (\<lambda>n c. 10 * n + (c - 0x30)) 0 ds"

text \<open>
  The longest exponent part (\<open>e\<close> or \<open>E\<close>, an optional sign, digits) at the head of a
  string: its value, \<open>0\<close> when there is none, and the rest of the string.
\<close>

definition exponentPart :: "jsstring \<Rightarrow> int \<times> jsstring" where
  "exponentPart s =
     (if s \<noteq> [] \<and> (hd s = 0x65 \<or> hd s = 0x45) then
        let t = tl s;
            negative = (t \<noteq> [] \<and> hd t = 0x2D);
            u = (if t \<noteq> [] \<and> (hd t = 0x2B \<or> hd t = 0x2D) then tl t else t);
            ds = takeWhile isDigit u
        in if ds = [] then (0, s)
           else ((if negative then - int (digitsValue ds) else int (digitsValue ds)),
                 dropWhile isDigit u)
      else (0, s))"

text \<open>
  The value of a decimal literal is a rational, or infinite for the word \<open>Infinity\<close>.
  \<open>unsignedDecimalLiteral\<close> reads the longest literal at the head of a string (digits,
  an optional fraction, an optional exponent; at least one digit before the exponent)
  and returns its value with the rest of the string; \<open>strDecimalLiteral\<close> allows a sign
  in front and also tells whether the sign was \<open>-\<close>.
\<close>

datatype literal_value = Infinite | Finite rat

definition unsignedDecimalLiteral :: "jsstring \<Rightarrow> (literal_value \<times> jsstring) option" where
  "unsignedDecimalLiteral s =
     (if take 8 s = str ''Infinity'' then Some (Infinite, drop 8 s)
      else
        let ip = takeWhile isDigit s;
            r1 = dropWhile isDigit s;
            dot = (r1 \<noteq> [] \<and> hd r1 = 0x2E);
            fp = (if dot then takeWhile isDigit (tl r1) else []);
            r2 = (if dot then dropWhile isDigit (tl r1) else r1)
        in if ip = [] \<and> fp = [] then None
           else
             let (ex, r3) = exponentPart r2
             in Some (Finite (of_nat (digitsValue (ip @ fp)) / 10 ^ length fp * 10 powi ex), r3))"

definition strDecimalLiteral :: "jsstring \<Rightarrow> (literal_value \<times> bool \<times> jsstring) option" where
  "strDecimalLiteral s =
     (let negative = (s \<noteq> [] \<and> hd s = 0x2D);
          u = (if s \<noteq> [] \<and> (hd s = 0x2B \<or> hd s = 0x2D) then tl s else s)
      in case unsignedDecimalLiteral u of
           None \<Rightarrow> None
         | Some (v, r) \<Rightarrow> Some (v, negative, r))"

definition literalNumber :: "literal_value \<Rightarrow> bool \<Rightarrow> jsnum" where
  "literalNumber v negative =
     (case v of
        Infinite \<Rightarrow> (if negative then NegInf else PosInf)
      | Finite q \<Rightarrow> roundDouble (if negative then - q else q))"

text \<open>
  \<open>parseFloat\<close> on a string: leading white space is skipped, the longest decimal literal
  at the head is read and what follows it is ignored; \<open>NaN\<close> when no literal is there.
\<close>

definition parseFloat_string :: "jsstring \<Rightarrow> jsnum" where
  "parseFloat_string s =
     (case strDecimalLiteral (dropWhile isWhiteSpace s) of
        None \<Rightarrow> NaN
      | Some (v, negative, r) \<Rightarrow> literalNumber v negative)"

text \<open>
  The literals \<open>0x\<close>, \<open>0o\<close> and \<open>0b\<close> with their digits, which \<open>Number(s)\<close> accepts and
  \<open>parseFloat\<close> does not.
\<close>

definition digitOf :: "nat \<Rightarrow> nat option" where
  "digitOf c =
     (if 0x30 \<le> c \<and> c \<le> 0x39 then Some (c - 0x30)
      else if 0x41 \<le> c \<and> c \<le> 0x46 then Some (c - 0x41 + 10)
      else if 0x61 \<le> c \<and> c \<le> 0x66 then Some (c - 0x61 + 10)
      else None)"

definition radixOf :: "nat \<Rightarrow> nat option" where
  "radixOf c =
     (if c = 0x78 \<or> c = 0x58 then Some 16
      else if c = 0x6F \<or> c = 0x4F then Some 8
      else if c = 0x62 \<or> c = 0x42 then Some 2
      else None)"

definition nonDecimalIntegerLiteral :: "jsstring \<Rightarrow> nat option" where
  "nonDecimalIntegerLiteral s =
     (case s of
        z # x # ds \<Rightarrow>
          (case radixOf x of
             None \<Rightarrow> None
           | Some b \<Rightarrow>
               if z = 0x30 \<and> ds \<noteq> []
                  \<and> list_all (\<lambda>c. case digitOf c of None \<Rightarrow> False | Some d \<Rightarrow> d < b) ds
               then Some (foldl (\<lambda>n c. b * n + the (digitOf c)) 0 ds)
               else None)
      | _ \<Rightarrow> None)"

text \<open>
  \<open>Number(s)\<close> on a string, which \<open>isNaN(s)\<close> applies: white space is removed at both
  ends; the empty string is \<open>0\<close>; otherwise the whole string has to be one literal.
\<close>

definition stringToNumber :: "jsstring \<Rightarrow> jsnum" where
  "stringToNumber s =
     (let t = trim s
      in if t = [] then Fin 0
         else case nonDecimalIntegerLiteral t of
                Some n \<Rightarrow> roundDouble (of_nat n)
              | None \<Rightarrow>
                  (case strDecimalLiteral t of
                     None \<Rightarrow> NaN
                   | Some (v, negative, r) \<Rightarrow> if r = [] then literalNumber v negative else NaN))"

subsection \<open>Dates\<close>

text \<open>
  A \<open>Date\<close> read for its calendar day (\<open>toDateString\<close>, \<open>formatDate\<close>) is kept as
  its local calendar fields; a \<open>Date\<close> read as an instant (\<open>getTime\<close>, comparison) is
  kept as milliseconds since the epoch. An invalid \<open>Date\<close> is outside the model.
\<close>

record jsdate =
  year :: nat
  month :: nat
  dayOfMonth :: nat
  msOfDay :: nat

text \<open>
  \<open>d.toDateString()\<close>, for instance \<open>Wed Jan 10 2024\<close>: the calendar day of \<open>d\<close>.
  The week day follows from the other three fields, so two dates print the same text
  exactly when year, month and day agree.
\<close>

definition toDateString :: "jsdate \<Rightarrow> nat \<times> nat \<times> nat" where
  "toDateString d = (year d, month d, dayOfMonth d)"

text \<open>\<open>formatDate(d, 'YYYYMMDD')\<close>: the year as printed, month and day on two digits.\<close>

definition formatDate_YYYYMMDD :: "jsdate \<Rightarrow> jsstring" where
  "formatDate_YYYYMMDD d =
     decimal (year d) @ padStart0 2 (decimal (month d)) @ padStart0 2 (decimal (dayOfMonth d))"

subsection \<open>Values of any type\<close>

text \<open>
  What a function argument or a sheet cell can hold: \<open>undefined\<close>, \<open>null\<close>, a boolean,
  a number, a string or a \<open>Date\<close> (an empty cell reads as the empty string). Arrays and
  other objects are outside the model.
\<close>

datatype jsval = Undefined | Null | JBool bool | JNum jsnum | JStr jsstring | JDate jsdate

text \<open>\<open>!x\<close>.\<close>

fun falsy :: "jsval \<Rightarrow> bool" where
  "falsy Undefined = True"
| "falsy Null = True"
| "falsy (JBool b) = (\<not> b)"
| "falsy (JNum n) = (n = NaN \<or> n = Fin 0)"
| "falsy (JStr s) = (s = [])"
| "falsy (JDate d) = False"

text \<open>\<open>x || y\<close>.\<close>

definition js_or :: "jsval \<Rightarrow> jsval \<Rightarrow> jsval" where
  "js_or x y = (if falsy x then y else x)"

text \<open>
  \<open>isNaN(x)\<close> converts \<open>x\<close> to a number first: \<open>undefined\<close> gives \<open>NaN\<close>, \<open>null\<close> and the
  booleans give \<open>0\<close> or \<open>1\<close>, a string is read by \<open>Number\<close>, a \<open>Date\<close> gives its instant.
\<close>

fun isNaN :: "jsval \<Rightarrow> bool" where
  "isNaN Undefined = True"
| "isNaN Null = False"
| "isNaN (JBool b) = False"
| "isNaN (JNum n) = (n = NaN)"
| "isNaN (JStr s) = (stringToNumber s = NaN)"
| "isNaN (JDate d) = False"

text \<open>
  \<open>parseFloat(x)\<close> converts \<open>x\<close> to a string first and reads that. A number is printed
  and read back: the same number. The texts \<open>undefined\<close>, \<open>null\<close>, \<open>true\<close>, \<open>false\<close> and
  the text of a \<open>Date\<close> (it starts with the name of the week day) hold no number.
\<close>

fun parseFloat :: "jsval \<Rightarrow> jsnum" where
  "parseFloat Undefined = NaN"
| "parseFloat Null = NaN"
| "parseFloat (JBool b) = NaN"
| "parseFloat (JNum n) = n"
| "parseFloat (JStr s) = parseFloat_string s"
| "parseFloat (JDate d) = NaN"

section \<open>Configuration\<close>

definition LOCK_TIMEOUT_SECONDS :: nat where
  "LOCK_TIMEOUT_SECONDS = 30"

definition PAYMENT_AMOUNT_MIN :: nat where
  "PAYMENT_AMOUNT_MIN = 5"

definition PAYMENT_AMOUNT_MULTIPLE :: nat where
  "PAYMENT_AMOUNT_MULTIPLE = 5"

definition MAX_PAYMENT_AMOUNT :: nat where
  "MAX_PAYMENT_AMOUNT = 10000"

definition IDEMPOTENCY_RETENTION_HOURS :: int where
  "IDEMPOTENCY_RETENTION_HOURS = 24"

definition RECEIPT_NUMBER_PREFIX :: jsstring where
  "RECEIPT_NUMBER_PREFIX = str ''R-''"

definition PAYMENT_ID_PREFIX :: jsstring where
  "PAYMENT_ID_PREFIX = str ''P''"

section \<open>Validation results\<close>

text \<open>
  A message is the text of the source. The one message that interpolates amounts
  (\<open>Payment would exceed expected amount. Expected: e, Already paid: p, New total: t\<close>)
  keeps its three numbers instead of their decimal rendering.
\<close>

datatype message = Msg jsstring | ExceedsExpected jsnum jsnum jsnum

record validation =
  valid :: bool
  message :: message

section \<open>validatePaymentAmount\<close>

text \<open>The function of the server (\<open>Code.gs\<close>), for an argument of any type.\<close>

definition validatePaymentAmount :: "jsval \<Rightarrow> validation" where
  "validatePaymentAmount amount =
     (if falsy amount \<or> isNaN amount then
        \<lparr>valid = False, message = Msg (str ''Amount must be a valid number'')\<rparr>
      else
        let numAmount = parseFloat amount in
        if js_le numAmount (Fin 0) then
          \<lparr>valid = False, message = Msg (str ''Amount must be greater than zero'')\<rparr>
        else if js_less numAmount (Fin (of_nat PAYMENT_AMOUNT_MIN)) then
          \<lparr>valid = False,
           message = Msg (str ''Minimum amount is '' @ decimal PAYMENT_AMOUNT_MIN)\<rparr>
        else if js_gt numAmount (Fin (of_nat MAX_PAYMENT_AMOUNT)) then
          \<lparr>valid = False,
           message = Msg (str ''Maximum amount is '' @ decimal MAX_PAYMENT_AMOUNT)\<rparr>
        else if js_rem numAmount (Fin (of_nat PAYMENT_AMOUNT_MULTIPLE)) \<noteq> Fin 0 then
          \<lparr>valid = False,
           message = Msg (str ''Amount must be a multiple of '' @ decimal PAYMENT_AMOUNT_MULTIPLE)\<rparr>
        else \<lparr>valid = True, message = Msg (str ''Valid amount'')\<rparr>)"


section \<open>The sheets\<close>

text \<open>
  A data row of the \<open>Payments\<close> sheet, under the sheet's column names (columns 0 to
  11 of the header, and the notes that \<open>appendRow\<close> writes as a thirteenth cell).
\<close>

record payment =
  PaymentID :: jsstring
  StudentID :: jsstring
  SectionID :: jsstring
  Amount :: jsnum
  PaymentDate :: jsdate
  EnteredBy :: jsstring
  CreatedAt :: int
  PhysicalReceiptNo :: jsstring
  ReceiptUrl :: jsstring
  IdempotencyKey :: jsstring
  IsVoided :: bool
  CollectionDayID :: jsstring
  Notes :: jsstring

text \<open>
  A data row of the \<open>Students\<close> sheet, cells 0 to 6, under the column names of the
  header that \<open>setupDatabase\<close> writes: \<open>StudentID\<close>, \<open>StudentNo\<close>, \<open>FullName\<close>,
  \<open>SectionID\<close>, \<open>Status\<close>, \<open>CreatedAt\<close>, \<open>ExpectedAmount\<close>. The first four are kept as
  the texts that \<open>String\<close> gives; cells 4 to 6 are kept as the values the sheet returns.
  \<open>handleCreateSection\<close>, the one place that appends a student, writes the text
  \<open>Active\<close> in cell 4, the creation date in cell 5 and the expected amount in cell 6.
\<close>

record student_row =
  row_StudentID :: jsstring
  row_StudentNo :: jsstring
  row_FullName :: jsstring
  row_SectionID :: jsstring
  row_Status :: jsval
  row_CreatedAt :: jsval
  row_ExpectedAmount :: jsval

text \<open>
  The object that \<open>validateStudentPaymentEligibility\<close> builds from the row it found:
  \<open>expectedAmount\<close> is \<open>row[4] || 0\<close> and \<open>isActive\<close> is \<open>row[5]\<close>.
\<close>

record student =
  studentId :: jsstring
  studentNo :: jsstring
  fullName :: jsstring
  sectionId :: jsstring
  expectedAmount :: jsval
  isActive :: jsval

text \<open>What \<open>validateSession\<close> returns for a live session.\<close>

record session =
  sess_user :: jsstring
  sess_role :: jsstring
  sess_department :: jsstring
  sess_section :: jsstring

text \<open>
  A row of the \<open>AuditLog\<close> sheet as \<open>logAction\<close> writes it. The details of a
  \<open>PAYMENT_RECORD\<close> entry are the object that the recorder passes to \<open>JSON.stringify\<close>.
\<close>

record payment_details =
  det_studentId :: jsstring
  det_studentName :: jsstring
  det_amount :: jsnum
  det_physicalReceiptNo :: jsstring
  det_systemReceiptNo :: jsstring
  det_paymentDate :: jsdate
  det_previousTotal :: "jsnum option"
  det_newTotal :: "jsnum option"
  det_idempotencyKey :: jsstring

record audit_entry =
  LogID :: jsstring
  User :: jsstring
  ActionType :: jsstring
  Table :: jsstring
  RecordID :: jsstring
  Details :: payment_details
  ActionTime :: int
  IPAddress :: jsstring

text \<open>
  The state the recorder works on: the three sheets (\<open>None\<close> when \<open>getSheetByName\<close>
  finds no such sheet), whether this execution holds the script lock, and the
  \<open>Utilities.sleep\<close> calls made so far, in milliseconds.
\<close>

record world =
  Students :: "student_row list option"
  Payments :: "payment list option"
  AuditLog :: "audit_entry list option"
  held :: bool
  sleeps :: "nat list"

text \<open>
  What the platform decides during one request: whether each \<open>waitLock\<close> attempt obtains
  the lock, the clock readings, the random draws, the generated UUID, the calls that
  raise an exception, and the e-mail of the active user. It also carries the platform's
  \<open>String.prototype.toUpperCase\<close>, a function of the string alone, of which nothing is
  assumed.
\<close>

datatype io_point =
  AtEligibility | AtPaymentsRead | AtGenerateReceipt | AtAppendRow | AtLogAction

record env =
  waitLock :: "nat \<Rightarrow> bool"
  today :: jsdate
  nowKey :: int
  nowCommit :: int
  nowFallback :: int
  nowLog :: int
  uuid :: jsstring
  idRandom :: nat
  receiptRandom :: "nat \<Rightarrow> nat"
  logRandom :: nat
  throws :: "io_point \<Rightarrow> bool"
  activeUserEmail :: jsstring
  toUpperCase :: "jsstring \<Rightarrow> jsstring"

section \<open>validateUniqueReceiptNumber\<close>

text \<open>
  The scan returns at the first row that is neither voided nor the excluded payment and
  whose receipt number, trimmed and in upper case, is the cleaned one.
  \<open>excludePaymentId\<close> is the empty string when the caller passes none.
\<close>

definition validateUniqueReceiptNumber :: "env \<Rightarrow> world \<Rightarrow> jsstring \<Rightarrow> jsstring \<Rightarrow> validation" where
  "validateUniqueReceiptNumber e w receiptNo excludePaymentId =
     (if receiptNo = [] \<or> trim receiptNo = [] then
        \<lparr>valid = False, message = Msg (str ''Physical receipt number is required'')\<rparr>
      else
        let cleanReceiptNo = toUpperCase e (trim receiptNo) in
        case Payments w of
          None \<Rightarrow> \<lparr>valid = False, message = Msg (str ''Payments sheet not found'')\<rparr>
        | Some payRows \<Rightarrow>
            (case find (\<lambda>row.
                     \<not> (IsVoided row \<or> (excludePaymentId \<noteq> [] \<and> PaymentID row = excludePaymentId))
                     \<and> toUpperCase e (trim (PhysicalReceiptNo row)) = cleanReceiptNo) payRows of
               Some row \<Rightarrow>
                 \<lparr>valid = False,
                  message = Msg (str ''Receipt number '' @ [0x22] @ receiptNo @ [0x22]
                                 @ str '' already used in payment '' @ PaymentID row)\<rparr>
             | None \<Rightarrow> \<lparr>valid = True, message = Msg (str ''Receipt number is unique'')\<rparr>))"

section \<open>validateIdempotencyKey\<close>

record idempotency_validation = validation +
  existingPaymentId :: "jsstring option"

definition validateIdempotencyKey :: "world \<Rightarrow> int \<Rightarrow> jsstring \<Rightarrow> idempotency_validation" where
  "validateIdempotencyKey w now idempotencyKey =
     (if idempotencyKey = [] \<or> trim idempotencyKey = [] then
        \<lparr>valid = False, message = Msg (str ''Idempotency key is required''),
         existingPaymentId = None\<rparr>
      else
        case Payments w of
          None \<Rightarrow>
            \<lparr>valid = False, message = Msg (str ''Payments sheet not found''),
             existingPaymentId = None\<rparr>
        | Some payRows \<Rightarrow>
            let cutoffTime = now - IDEMPOTENCY_RETENTION_HOURS * 60 * 60 * 1000 in
            (case find (\<lambda>row. \<not> IsVoided row \<and> CreatedAt row > cutoffTime
                               \<and> IdempotencyKey row = idempotencyKey) payRows of
               Some row \<Rightarrow>
                 \<lparr>valid = False, message = Msg (str ''Duplicate request detected''),
                  existingPaymentId = Some (PaymentID row)\<rparr>
             | None \<Rightarrow>
                 \<lparr>valid = True, message = Msg (str ''Idempotency key is unique''),
                  existingPaymentId = None\<rparr>))"

section \<open>validateStudentPaymentEligibility\<close>

record eligibility_validation = validation +
  elig_student :: "student option"
  totalPaid :: "jsnum option"
  newTotal :: "jsnum option"

text \<open>The loop that adds up the amounts of the student's payments that are not voided.\<close>

definition sumPayments :: "jsstring \<Rightarrow> payment list \<Rightarrow> jsnum" where
  "sumPayments sid payRows =
     foldl (\<lambda>total row.
              if StudentID row = sid \<and> \<not> IsVoided row
              then js_add total (parseFloat (js_or (JNum (Amount row)) (JNum (Fin 0))))
              else total) (Fin 0) payRows"

text \<open>
  The student object is built from cells 0 to 5 of the row: the check takes cell 4 (the
  \<open>Status\<close> column) for the expected amount and cell 5 (the \<open>CreatedAt\<close> column) for the
  active flag, and does not read cell 6.
\<close>

definition validateStudentPaymentEligibility ::
    "world \<Rightarrow> jsstring \<Rightarrow> jsnum \<Rightarrow> session \<Rightarrow> eligibility_validation" where
  "validateStudentPaymentEligibility w sid amount sess =
     (case (Students w, Payments w) of
        (Some stuRows, Some payRows) \<Rightarrow>
          (case find (\<lambda>row. row_StudentID row = sid) stuRows of
             None \<Rightarrow>
               \<lparr>valid = False, message = Msg (str ''Student not found''),
                elig_student = None, totalPaid = None, newTotal = None\<rparr>
           | Some row \<Rightarrow>
               let stu = \<lparr>studentId = row_StudentID row,
                          studentNo = row_StudentNo row,
                          fullName = row_FullName row,
                          sectionId = row_SectionID row,
                          expectedAmount = js_or (row_Status row) (JNum (Fin 0)),
                          isActive = row_CreatedAt row\<rparr>
               in
               if falsy (isActive stu) then
                 \<lparr>valid = False, message = Msg (str ''Student is inactive''),
                  elig_student = None, totalPaid = None, newTotal = None\<rparr>
               else if sess_role sess = str ''Treasurer'' \<and> sectionId stu \<noteq> sess_section sess then
                 \<lparr>valid = False, message = Msg (str ''Student not in your section''),
                  elig_student = None, totalPaid = None, newTotal = None\<rparr>
               else
                 let paid = sumPayments sid payRows;
                     total = js_add paid (parseFloat (JNum amount));
                     expected = parseFloat (expectedAmount stu)
                 in if js_gt expected (Fin 0) \<and> js_gt total expected then
                      \<lparr>valid = False, message = ExceedsExpected expected paid total,
                       elig_student = None, totalPaid = None, newTotal = None\<rparr>
                    else
                      \<lparr>valid = True, message = Msg (str ''Student eligible for payment''),
                       elig_student = Some stu, totalPaid = Some paid, newTotal = Some total\<rparr>)
      | _ \<Rightarrow>
          \<lparr>valid = False, message = Msg (str ''Required sheets not found''),
           elig_student = None, totalPaid = None, newTotal = None\<rparr>)"

section \<open>generateUniqueReceiptNumber\<close>

text \<open>
  Attempt \<open>i\<close> draws \<open>Math.floor(Math.random() * 1000)\<close>, here \<open>receiptRandom e i\<close>,
  and the first candidate that \<open>validateUniqueReceiptNumber\<close> accepts is returned; after
  \<open>maxAttempts = 100\<close> refused candidates the number of seconds of \<open>Date.now()\<close> is used.
\<close>

definition receiptCandidate :: "env \<Rightarrow> jsstring \<Rightarrow> nat \<Rightarrow> jsstring" where
  "receiptCandidate e dateStr attempt =
     RECEIPT_NUMBER_PREFIX @ dateStr @ str ''-'' @ padStart0 3 (decimal (receiptRandom e attempt))"

definition generateUniqueReceiptNumber :: "env \<Rightarrow> world \<Rightarrow> jsdate \<Rightarrow> jsstring" where
  "generateUniqueReceiptNumber e w paymentDate =
     (let dateStr = formatDate_YYYYMMDD paymentDate;
          maxAttempts = 100
      in case find (\<lambda>attempt. valid (validateUniqueReceiptNumber e w
                                       (receiptCandidate e dateStr attempt) []))
                   [0..<maxAttempts] of
           Some attempt \<Rightarrow> receiptCandidate e dateStr attempt
         | None \<Rightarrow> RECEIPT_NUMBER_PREFIX @ dateStr @ str ''-'' @ intString (nowFallback e div 1000))"

section \<open>acquireLockWithRetry\<close>

text \<open>
  \<open>LockService.getScriptLock()\<close> takes no argument: there is one lock for the whole
  script, whatever \<open>lockKey\<close> is; the key only appears in the log lines, which are not
  modelled. \<open>waitLock e attempt\<close> tells whether \<open>lock.waitLock\<close> returns at that attempt
  (otherwise it raises after \<open>LOCK_TIMEOUT_SECONDS\<close>). The loop returns whether the lock
  was obtained, and the sleeps it made.
\<close>

datatype lock = ScriptLock

function acquireLoop :: "(nat \<Rightarrow> bool) \<Rightarrow> nat \<Rightarrow> nat \<Rightarrow> nat list \<Rightarrow> bool \<times> nat list" where
  "acquireLoop wl maxAttempts attempt slept =
     (if attempt < maxAttempts then
        if wl attempt then (True, slept)
        else if attempt = maxAttempts - 1 then (False, slept)
        else acquireLoop wl maxAttempts (attempt + 1) (slept @ [100 * (attempt + 1)])
      else (False, slept))"
  by pat_completeness auto
termination
  by (relation "measure (\<lambda>(wl, maxAttempts, attempt, slept). maxAttempts - attempt)") auto

declare acquireLoop.simps [simp del]

definition acquireLockWithRetry :: "env \<Rightarrow> jsstring \<Rightarrow> nat \<Rightarrow> world \<Rightarrow> lock option \<times> world" where
  "acquireLockWithRetry e lockKey maxAttempts w =
     (let maxAttempts = (if maxAttempts = 0 then 3 else maxAttempts);
          (got, slept) = acquireLoop (waitLock e) maxAttempts 0 []
      in if got then (Some ScriptLock, w\<lparr>held := True, sleeps := sleeps w @ slept\<rparr>)
         else (None, w\<lparr>sleeps := sleeps w @ slept\<rparr>))"

definition releaseLock :: "world \<Rightarrow> world" where
  "releaseLock w = w\<lparr>held := False\<rparr>"

section \<open>logAction\<close>

text \<open>
  \<open>logAction\<close> catches whatever its body raises: a failure leaves the sheet as it was.
\<close>

definition logAction ::
    "env \<Rightarrow> jsstring \<Rightarrow> jsstring \<Rightarrow> jsstring \<Rightarrow> jsstring \<Rightarrow> payment_details \<Rightarrow> world \<Rightarrow> world" where
  "logAction e actionType usr tbl recordId details w =
     (if throws e AtLogAction then w
      else case AuditLog w of
             None \<Rightarrow> w
           | Some entries \<Rightarrow>
               w\<lparr>AuditLog := Some (entries @
                    [\<lparr>LogID = str ''L'' @ intString (nowLog e div 1000) @ decimal (logRandom e),
                      User = (if usr = [] then str ''System'' else usr),
                      ActionType = actionType,
                      Table = tbl,
                      RecordID = recordId,
                      Details = details,
                      ActionTime = nowLog e,
                      IPAddress = (if activeUserEmail e = [] then str ''unknown''
                                   else activeUserEmail e)\<rparr>])\<rparr>)"

section \<open>handleRecordPayment\<close>

text \<open>
  The request: \<open>req_amount\<close> is the number \<open>parseFloat(payload.amount)\<close>; a field the
  payload leaves out is the empty string (\<open>None\<close> for the payment date). The session is
  what \<open>validateSession(payload.token)\<close> returned (\<open>None\<close> for \<open>null\<close>).
\<close>

record payload =
  req_studentId :: jsstring
  req_amount :: jsnum
  req_physicalReceiptNo :: jsstring
  req_idempotencyKey :: jsstring
  req_paymentDate :: "jsdate option"
  req_notes :: jsstring

record recorded =
  res_paymentId :: jsstring
  res_receiptNo :: jsstring
  res_physicalReceiptNo :: jsstring
  res_studentName :: jsstring
  res_amount :: jsnum
  res_paymentDate :: jsdate
  res_previousTotal :: "jsnum option"
  res_newTotal :: "jsnum option"
  res_message :: jsstring

text \<open>
  The data of a success response: \<open>Duplicate paymentId message\<close> is the object with
  \<open>duplicate: true\<close>, \<open>Recorded\<close> the object returned after a commit.
\<close>

datatype success_data = Duplicate jsstring jsstring | Recorded recorded

datatype response = StatusError message | StatusOk success_data

definition createSuccessResponse :: "success_data \<Rightarrow> response" where
  "createSuccessResponse d = StatusOk d"

definition createErrorResponse :: "message \<Rightarrow> response" where
  "createErrorResponse m = StatusError m"

definition appendRow :: "payment \<Rightarrow> world \<Rightarrow> world" where
  "appendRow row w =
     (case Payments w of
        None \<Rightarrow> w
      | Some payRows \<Rightarrow> w\<lparr>Payments := Some (payRows @ [row])\<rparr>)"

text \<open>
  Steps 10 and 11, the inner \<open>try\<close>: the row is appended, the action is logged, the
  lock is released. An exception in here (that of \<open>appendRow\<close>, or reading
  \<open>student.sectionId\<close> of a missing student) is caught by the inner \<open>catch\<close>.
\<close>

definition handleRecordPayment_write ::
    "env \<Rightarrow> session \<Rightarrow> jsstring \<Rightarrow> jsnum \<Rightarrow> jsstring \<Rightarrow> jsstring \<Rightarrow> jsdate \<Rightarrow> jsstring \<Rightarrow>
     eligibility_validation \<Rightarrow> int \<Rightarrow> jsstring \<Rightarrow> jsstring \<Rightarrow> world \<Rightarrow> response \<times> world" where
  "handleRecordPayment_write e sess sid amount physicalReceiptNo idempotencyKey paymentDate notes
       eligibilityValidation now paymentId systemReceiptNo w =
     (case elig_student eligibilityValidation of
        None \<Rightarrow>
          (createErrorResponse (Msg (str ''Failed to save payment record. Please try again.'')),
           releaseLock w)
      | Some stu \<Rightarrow>
          if throws e AtAppendRow then
            (createErrorResponse (Msg (str ''Failed to save payment record. Please try again.'')),
             releaseLock w)
          else
            let w1 = appendRow
                  \<lparr>PaymentID = paymentId,
                   StudentID = sid,
                   SectionID = sectionId stu,
                   Amount = amount,
                   PaymentDate = paymentDate,
                   EnteredBy = sess_user sess,
                   CreatedAt = now,
                   PhysicalReceiptNo = physicalReceiptNo,
                   ReceiptUrl = [],
                   IdempotencyKey = idempotencyKey,
                   IsVoided = False,
                   CollectionDayID = [],
                   Notes = notes\<rparr> w;
                w2 = logAction e (str ''PAYMENT_RECORD'') (sess_user sess) (str ''Payments'') paymentId
                  \<lparr>det_studentId = sid,
                   det_studentName = fullName stu,
                   det_amount = amount,
                   det_physicalReceiptNo = physicalReceiptNo,
                   det_systemReceiptNo = systemReceiptNo,
                   det_paymentDate = paymentDate,
                   det_previousTotal = totalPaid eligibilityValidation,
                   det_newTotal = newTotal eligibilityValidation,
                   det_idempotencyKey = idempotencyKey\<rparr> w1
            in (createSuccessResponse (Recorded
                  \<lparr>res_paymentId = paymentId,
                   res_receiptNo = systemReceiptNo,
                   res_physicalReceiptNo = physicalReceiptNo,
                   res_studentName = fullName stu,
                   res_amount = amount,
                   res_paymentDate = paymentDate,
                   res_previousTotal = totalPaid eligibilityValidation,
                   res_newTotal = newTotal eligibilityValidation,
                   res_message = str ''Payment recorded successfully''\<rparr>),
                releaseLock w2))"

text \<open>
  Steps 6 to 9, the body of the outer \<open>try\<close>, entered with the lock held. \<open>Inl w\<close> is
  an exception raised with the state \<open>w\<close>, for the outer \<open>catch\<close>; \<open>Inr\<close> is a return.
\<close>

definition handleRecordPayment_locked ::
    "env \<Rightarrow> session \<Rightarrow> jsstring \<Rightarrow> jsnum \<Rightarrow> jsstring \<Rightarrow> jsstring \<Rightarrow> jsdate \<Rightarrow> jsstring \<Rightarrow>
     world \<Rightarrow> world + response \<times> world" where
  "handleRecordPayment_locked e sess sid amount physicalReceiptNo idempotencyKey paymentDate notes w =
     (if throws e AtEligibility then Inl w
      else
        let eligibilityValidation = validateStudentPaymentEligibility w sid amount sess in
        if \<not> valid eligibilityValidation then
          Inr (createErrorResponse (message eligibilityValidation), releaseLock w)
        else if throws e AtPaymentsRead then Inl w
        else
          case Payments w of
            None \<Rightarrow> Inr (createErrorResponse (Msg (str ''Payments sheet not found'')), releaseLock w)
          | Some payRows \<Rightarrow>
              (case find (\<lambda>row. IdempotencyKey row = idempotencyKey) payRows of
                 Some row \<Rightarrow>
                   Inr (createSuccessResponse
                          (Duplicate (PaymentID row)
                             (str ''payment already recorded (detected in lock)'')),
                        releaseLock w)
               | None \<Rightarrow>
                   (case find (\<lambda>row. \<not> IsVoided row
                                 \<and> toUpperCase e (trim (PhysicalReceiptNo row))
                                     = toUpperCase e physicalReceiptNo) payRows of
                      Some row \<Rightarrow>
                        Inr (createErrorResponse
                               (Msg (str ''Receipt number '' @ [0x22] @ physicalReceiptNo @ [0x22]
                                     @ str '' already used in payment '' @ PaymentID row)),
                             releaseLock w)
                    | None \<Rightarrow>
                        let todayStr = toDateString paymentDate in
                        (case find (\<lambda>row. StudentID row = sid \<and> \<not> IsVoided row
                                      \<and> toDateString (PaymentDate row) = todayStr) payRows of
                           Some row \<Rightarrow>
                             Inr (createErrorResponse
                                    (Msg (str ''A payment for this student has already been recorded today. ''
                                          @ str ''Use a different date or contact admin to void the existing payment.'')),
                                  releaseLock w)
                         | None \<Rightarrow>
                             if throws e AtGenerateReceipt then Inl w
                             else
                               let now = nowCommit e;
                                   paymentId = PAYMENT_ID_PREFIX @ intString (now div 1000)
                                               @ decimal (idRandom e);
                                   systemReceiptNo = generateUniqueReceiptNumber e w paymentDate
                               in Inr (handleRecordPayment_write e sess sid amount physicalReceiptNo
                                         idempotencyKey paymentDate notes eligibilityValidation
                                         now paymentId systemReceiptNo w)))))"

text \<open>The whole handler: steps 1 to 5 before the lock, then the \<open>try\<close> with its \<open>catch\<close>.\<close>

definition handleRecordPayment :: "env \<Rightarrow> session option \<Rightarrow> payload \<Rightarrow> world \<Rightarrow> response \<times> world" where
  "handleRecordPayment e session p w =
     (case session of
        None \<Rightarrow> (createErrorResponse (Msg (str ''unauthorized'')), w)
      | Some sess \<Rightarrow>
          let sid = req_studentId p;
              amount = req_amount p;
              physicalReceiptNo = trim (req_physicalReceiptNo p);
              idempotencyKey = (if req_idempotencyKey p = [] then uuid e else req_idempotencyKey p);
              paymentDate = (case req_paymentDate p of None \<Rightarrow> today e | Some d \<Rightarrow> d);
              notes = trim (req_notes p)
          in
          if sid = [] \<or> falsy (JNum amount) \<or> physicalReceiptNo = [] then
            (createErrorResponse
               (Msg (str ''studentId, amount, and physicalReceiptNo are required'')), w)
          else
            let amountValidation = validatePaymentAmount (JNum amount) in
            if \<not> valid amountValidation then (createErrorResponse (message amountValidation), w)
            else
              let idempotencyValidation = validateIdempotencyKey w (nowKey e) idempotencyKey in
              if \<not> valid idempotencyValidation then
                (case existingPaymentId idempotencyValidation of
                   None \<Rightarrow> (createErrorResponse (message idempotencyValidation), w)
                 | Some existing \<Rightarrow>
                     if existing = [] then (createErrorResponse (message idempotencyValidation), w)
                     else (createSuccessResponse
                             (Duplicate existing (str ''payment already recorded'')), w))
              else
                let receiptValidation = validateUniqueReceiptNumber e w physicalReceiptNo [] in
                if \<not> valid receiptValidation then (createErrorResponse (message receiptValidation), w)
                else
                  let (lck, w1) = acquireLockWithRetry e (str ''recordPayment_'' @ sid) 3 w in
                  if lck = None then
                    (createErrorResponse
                       (Msg (str ''System is busy processing another payment for this student. ''
                             @ str ''Please wait and try again.'')), w1)
                  else
                    (case handleRecordPayment_locked e sess sid amount physicalReceiptNo
                            idempotencyKey paymentDate notes w1 of
                       Inl w2 \<Rightarrow>
                         (createErrorResponse
                            (Msg (str ''Unexpected error occurred. ''
                                  @ str ''Please try again or contact support.'')), releaseLock w2)
                     | Inr r \<Rightarrow> r))"

section \<open>Names for what the handler computes from a request\<close>

text \<open>
  The local variables \<open>idempotencyKey\<close> and \<open>paymentDate\<close> of \<open>handleRecordPayment\<close>,
  and the row that its \<open>appendRow\<close> call writes for the student \<open>stu\<close>.
\<close>

definition requestKey :: "env \<Rightarrow> payload \<Rightarrow> jsstring" where
  "requestKey e p = (if req_idempotencyKey p = [] then uuid e else req_idempotencyKey p)"

definition requestDate :: "env \<Rightarrow> payload \<Rightarrow> jsdate" where
  "requestDate e p = (case req_paymentDate p of None \<Rightarrow> today e | Some d \<Rightarrow> d)"

definition committedRow :: "env \<Rightarrow> session \<Rightarrow> payload \<Rightarrow> student \<Rightarrow> payment" where
  "committedRow e sess p stu =
     \<lparr>PaymentID = PAYMENT_ID_PREFIX @ intString (nowCommit e div 1000) @ decimal (idRandom e),
      StudentID = req_studentId p,
      SectionID = sectionId stu,
      Amount = req_amount p,
      PaymentDate = requestDate e p,
      EnteredBy = sess_user sess,
      CreatedAt = nowCommit e,
      PhysicalReceiptNo = trim (req_physicalReceiptNo p),
      ReceiptUrl = [],
      IdempotencyKey = requestKey e p,
      IsVoided = False,
      CollectionDayID = [],
      Notes = trim (req_notes p)\<rparr>"

section \<open>Concrete data for the examples\<close>

definition ex_date10 :: jsdate where
  "ex_date10 = \<lparr>year = 2024, month = 1, dayOfMonth = 10, msOfDay = 0\<rparr>"

definition ex_date11 :: jsdate where
  "ex_date11 = \<lparr>year = 2024, month = 1, dayOfMonth = 11, msOfDay = 0\<rparr>"

text \<open>
  A student row as \<open>handleCreateSection\<close> appends it: status \<open>Active\<close>, a creation
  date, and the expected amount 100 in the last cell.
\<close>

definition ex_student :: student_row where
  "ex_student = \<lparr>row_StudentID = str ''S1'', row_StudentNo = str ''001'',
                  row_FullName = str ''Ana'', row_SectionID = str ''SEC1'',
                  row_Status = JStr (str ''Active''), row_CreatedAt = JDate ex_date10,
                  row_ExpectedAmount = JNum (Fin 100)\<rparr>"

definition ex_session :: session where
  "ex_session = \<lparr>sess_user = str ''tina'', sess_role = str ''Treasurer'',
                  sess_department = str ''ICT'', sess_section = str ''SEC1''\<rparr>"

text \<open>
  The upper case of a text of ASCII letters, which is what the platform's
  \<open>toUpperCase\<close> gives on the texts of the examples.
\<close>

definition ex_toUpperCase :: "jsstring \<Rightarrow> jsstring" where
  "ex_toUpperCase s = map (\<lambda>c. if 0x61 \<le> c \<and> c \<le> 0x7A then c - 0x20 else c) s"

text \<open>An environment in which the lock is free and nothing fails.\<close>

definition ex_env :: env where
  "ex_env = \<lparr>waitLock = (\<lambda>attempt. True), today = ex_date10, nowKey = 1000000,
              nowCommit = 1000500, nowFallback = 1000600, nowLog = 1000700, uuid = str ''u-1'',
              idRandom = 7, receiptRandom = (\<lambda>attempt. 42), logRandom = 9,
              throws = (\<lambda>pt. False), activeUserEmail = str ''t@x'',
              toUpperCase = ex_toUpperCase\<rparr>"

text \<open>The first payment of the student: 80 on 2024-01-10, receipt \<open>r-001\<close>, key \<open>k1\<close>.\<close>

definition ex_payload :: payload where
  "ex_payload = \<lparr>req_studentId = str ''S1'', req_amount = Fin 80,
                  req_physicalReceiptNo = str ''r-001'', req_idempotencyKey = str ''k1'',
                  req_paymentDate = Some ex_date10, req_notes = []\<rparr>"

definition ex_payment80 :: payment where
  "ex_payment80 =
     \<lparr>PaymentID = str ''P10007'', StudentID = str ''S1'', SectionID = str ''SEC1'',
      Amount = Fin 80, PaymentDate = ex_date10, EnteredBy = str ''tina'', CreatedAt = 1000500,
      PhysicalReceiptNo = str ''r-001'', ReceiptUrl = [], IdempotencyKey = str ''k1'',
      IsVoided = False, CollectionDayID = [], Notes = []\<rparr>"

text \<open>The ledger before and after that payment (the audit sheet left empty).\<close>

definition ex_world :: world where
  "ex_world = \<lparr>Students = Some [ex_student], Payments = Some [], AuditLog = Some [],
                held = False, sleeps = []\<rparr>"

definition ex_world80 :: world where
  "ex_world80 = \<lparr>Students = Some [ex_student], Payments = Some [ex_payment80],
                  AuditLog = Some [], held = False, sleeps = []\<rparr>"

text \<open>A second request: 20 on 2024-01-11, receipt \<open>R-002\<close>, key \<open>k2\<close>.\<close>

definition ex_payload20 :: payload where
  "ex_payload20 = \<lparr>req_studentId = str ''S1'', req_amount = Fin 20,
                    req_physicalReceiptNo = str ''R-002'', req_idempotencyKey = str ''k2'',
                    req_paymentDate = Some ex_date11, req_notes = []\<rparr>"

text \<open>A request that would bring the student's total to 105: 25 on 2024-01-11.\<close>

definition ex_payload25 :: payload where
  "ex_payload25 = \<lparr>req_studentId = str ''S1'', req_amount = Fin 25,
                    req_physicalReceiptNo = str ''R-002'', req_idempotencyKey = str ''k2'',
                    req_paymentDate = Some ex_date11, req_notes = []\<rparr>"

text \<open>
  The row that \<open>appendRow\<close> writes for that request, and a student row that holds in
  cells 4 and 5 what the eligibility check takes from them: the expected amount 100 and
  a true flag.
\<close>

definition ex_payment25 :: payment where
  "ex_payment25 =
     \<lparr>PaymentID = str ''P10007'', StudentID = str ''S1'', SectionID = str ''SEC1'',
      Amount = Fin 25, PaymentDate = ex_date11, EnteredBy = str ''tina'', CreatedAt = 1000500,
      PhysicalReceiptNo = str ''R-002'', ReceiptUrl = [], IdempotencyKey = str ''k2'',
      IsVoided = False, CollectionDayID = [], Notes = []\<rparr>"

definition ex_student_as_read :: student_row where
  "ex_student_as_read = ex_student\<lparr>row_Status := JNum (Fin 100), row_CreatedAt := JBool True\<rparr>"

section \<open>Rounding to doubles\<close>

lemma roundHalfEven_of_int [simp]: "roundHalfEven (of_int k) = k"
  by (simp add: roundHalfEven_def)

lemma find_upto_Some:
  "find P [a..b] = Some x \<Longrightarrow> a \<le> x \<and> x \<le> b \<and> P x \<and> (\<forall>y. a \<le> y \<and> y < x \<longrightarrow> \<not> P y)"
proof (induction a b rule: upto.induct)
  case (1 i j)
  show ?case
  proof (cases "i \<le> j")
    case False
    with "1.prems" show ?thesis by (simp add: upto.simps)
  next
    case True
    then have u: "[i..j] = i # [i + 1..j]" by (simp add: upto.simps)
    show ?thesis
    proof (cases "P i")
      case True
      with "1.prems" u \<open>i \<le> j\<close> show ?thesis by auto
    next
      case False
      with "1.prems" u have f: "find P [i + 1..j] = Some x" by simp
      from "1.IH" [OF True f]
      have IH: "i + 1 \<le> x \<and> x \<le> j \<and> P x \<and> (\<forall>y. i + 1 \<le> y \<and> y < x \<longrightarrow> \<not> P y)" .
      have "\<not> P y" if "i \<le> y \<and> y < x" for y
      proof (cases "y = i")
        case True
        with False show ?thesis by simp
      next
        case False
        with that IH show ?thesis by simp
      qed
      with IH show ?thesis by auto
    qed
  qed
qed

lemma find_upto_None:
  "find P [a..b] = None \<Longrightarrow> a \<le> y \<Longrightarrow> y \<le> b \<Longrightarrow> \<not> P y"
  by (simp add: find_None_iff)

lemma ulpExponent_of_int:
  assumes "\<bar>i\<bar> < 2 ^ 53"
  shows "- 1074 \<le> ulpExponent (of_int i) \<and> ulpExponent (of_int i) \<le> 0"
proof -
  let ?P = "\<lambda>e. \<bar>of_int i :: rat\<bar> < 2 powi (e + 53)"
  have P0: "?P 0"
  proof -
    have "(of_int \<bar>i\<bar> :: rat) < of_int (2 ^ 53)" using assms by (simp only: of_int_less_iff)
    then show ?thesis by simp
  qed
  show ?thesis
  proof (cases "find ?P [- 1074..970]")
    case None
    from find_upto_None [OF None, of 0] P0 show ?thesis by simp
  next
    case (Some e)
    from find_upto_Some [OF Some]
    have e: "- 1074 \<le> e" "\<forall>y. - 1074 \<le> y \<and> y < e \<longrightarrow> \<not> ?P y"
      by blast+
    have "e \<le> 0"
    proof (rule ccontr)
      assume "\<not> e \<le> 0"
      then have "- 1074 \<le> (0::int) \<and> 0 < e" by simp
      with e(2) P0 show False by blast
    qed
    with e(1) Some show ?thesis by (simp add: ulpExponent_def)
  qed
qed

text \<open>An integer below \<open>2^53\<close> in absolute value is a double: rounding leaves it.\<close>

lemma roundDouble_of_int:
  assumes "\<bar>i\<bar> < 2 ^ 53"
  shows "roundDouble (of_int i) = Fin (of_int i)"
proof -
  define e where "e = ulpExponent (of_int i)"
  from ulpExponent_of_int [OF assms] have e: "- 1074 \<le> e" "e \<le> 0" by (simp_all add: e_def)
  define n where "n = nat (- e)"
  have en: "e = - int n" using e by (simp add: n_def)
  have p: "(2::rat) powi e = 1 / 2 ^ n"
    by (simp add: en power_int_minus field_simps)
  have q: "(of_int i :: rat) / 2 powi e = of_int (i * 2 ^ n)"
    by (simp add: p)
  have "roundHalfEven ((of_int i :: rat) / 2 powi e) = i * 2 ^ n"
    unfolding q by (rule roundHalfEven_of_int)
  moreover have "e \<noteq> 971" using e by simp
  ultimately show ?thesis
    unfolding roundDouble_def e_def [symmetric] Let_def by (simp add: p)
qed

lemma roundDouble_numeral [simp]:
  "numeral k < (2::int) ^ 53 \<Longrightarrow> roundDouble (numeral k) = Fin (numeral k)"
  "numeral k < (2::int) ^ 53 \<Longrightarrow> roundDouble (- numeral k) = Fin (- numeral k)"
  "roundDouble 0 = Fin 0"
  "roundDouble 1 = Fin 1"
  using roundDouble_of_int [of "numeral k"] roundDouble_of_int [of "- numeral k"]
    roundDouble_of_int [of 0] roundDouble_of_int [of 1]
  by simp_all

lemma find_upto_SomeI:
  assumes "a \<le> x" and "x \<le> b" and "P x" and "\<And>y. a \<le> y \<Longrightarrow> y < x \<Longrightarrow> \<not> P y"
  shows "find P [a..b] = Some x"
proof (cases "find P [a..b]")
  case None
  from find_upto_None [OF None assms(1,2)] assms(3) show ?thesis by simp
next
  case (Some z)
  from find_upto_Some [OF Some] have z: "a \<le> z" "P z" "\<forall>y. a \<le> y \<and> y < z \<longrightarrow> \<not> P y"
    by blast+
  have "\<not> z < x" using assms(4) [of z] z by blast
  moreover have "\<not> x < z" using z(3) assms(1,3) by blast
  ultimately show ?thesis using Some by simp
qed

lemma ulpExponent_example: "ulpExponent 9007199254740993 = 1"
proof -
  let ?P = "\<lambda>e. \<bar>9007199254740993 :: rat\<bar> < 2 powi (e + 53)"
  have P1: "?P 1" by simp
  have nP: "\<not> ?P y" if "y < 1" for y
  proof -
    have "(2::rat) powi (y + 53) \<le> 2 powi 53"
      using that by (intro power_int_increasing) simp_all
    then show ?thesis by simp
  qed
  have f: "find ?P [- 1074..970] = Some 1"
  proof (rule find_upto_SomeI)
    show "?P 1" by (rule P1)
    show "\<not> ?P y" if "y < 1" for y using that by (rule nP)
  qed simp_all
  show ?thesis unfolding ulpExponent_def f by simp
qed

text \<open>Above \<open>2^53\<close> a sum is rounded: \<open>2^53 + 1\<close> is \<open>2^53\<close>.\<close>

lemma js_add_rounds: "js_add (Fin (2 ^ 53)) (Fin 1) = Fin (2 ^ 53)"
proof -
  have fl: "\<lfloor>(9007199254740993::rat) / 2\<rfloor> = 4503599627370496"
    by (rule floor_unique) simp_all
  have m: "roundHalfEven (9007199254740993 / 2) = 4503599627370496"
    by (simp add: roundHalfEven_def Let_def fl)
  show ?thesis
    by (simp add: roundDouble_def ulpExponent_example Let_def m)
qed

section \<open>Evaluating the definitions on concrete data\<close>

lemma find_upt:
  "find P [i..<j] = (if i < j then (if P i then Some i else find P [Suc i..<j]) else None)"
  by (simp add: upt_conv_Cons)

lemma replicate_numeral_Cons:
  "replicate (numeral k) x = x # replicate (pred_numeral k) x"
  by (simp add: numeral_eq_Suc)

lemmas js_defs = js_or_def js_gt_def truncate_rat_def str_def
  isWhiteSpace_def trim_def intString_def padStart0_def
  decimal.simps toDateString_def formatDate_YYYYMMDD_def replicate_numeral_Cons

lemmas parse_defs = isDigit_def digitsValue_def exponentPart_def unsignedDecimalLiteral_def
  strDecimalLiteral_def literalNumber_def parseFloat_string_def digitOf_def radixOf_def
  nonDecimalIntegerLiteral_def stringToNumber_def

lemmas config_defs = LOCK_TIMEOUT_SECONDS_def PAYMENT_AMOUNT_MIN_def PAYMENT_AMOUNT_MULTIPLE_def
  MAX_PAYMENT_AMOUNT_def IDEMPOTENCY_RETENTION_HOURS_def RECEIPT_NUMBER_PREFIX_def
  PAYMENT_ID_PREFIX_def

lemmas handler_defs = validatePaymentAmount_def validateUniqueReceiptNumber_def
  validateIdempotencyKey_def sumPayments_def validateStudentPaymentEligibility_def
  receiptCandidate_def generateUniqueReceiptNumber_def acquireLoop.simps
  acquireLockWithRetry_def releaseLock_def logAction_def createSuccessResponse_def
  createErrorResponse_def appendRow_def handleRecordPayment_write_def
  handleRecordPayment_locked_def handleRecordPayment_def find_upt Let_def

lemmas ex_defs = ex_date10_def ex_date11_def ex_student_def ex_world_def ex_world80_def
  ex_env_def ex_session_def ex_payload_def ex_payload20_def ex_payment80_def
  ex_toUpperCase_def ex_payload25_def ex_payment25_def ex_student_as_read_def

lemma ex_first_payment:
  "handleRecordPayment ex_env (Some ex_session) ex_payload ex_world =
     (StatusOk (Recorded
        \<lparr>res_paymentId = str ''P10007'', res_receiptNo = str ''R-20240110-042'',
         res_physicalReceiptNo = str ''r-001'', res_studentName = str ''Ana'', res_amount = Fin 80,
         res_paymentDate = ex_date10, res_previousTotal = Some (Fin 0),
         res_newTotal = Some (Fin 80), res_message = str ''Payment recorded successfully''\<rparr>),
      \<lparr>Students = Some [ex_student], Payments = Some [ex_payment80],
       AuditLog = Some
         [\<lparr>LogID = str ''L10009'', User = str ''tina'', ActionType = str ''PAYMENT_RECORD'',
           Table = str ''Payments'', RecordID = str ''P10007'',
           Details = \<lparr>det_studentId = str ''S1'', det_studentName = str ''Ana'',
                      det_amount = Fin 80, det_physicalReceiptNo = str ''r-001'',
                      det_systemReceiptNo = str ''R-20240110-042'',
                      det_paymentDate = ex_date10, det_previousTotal = Some (Fin 0),
                      det_newTotal = Some (Fin 80), det_idempotencyKey = str ''k1''\<rparr>,
           ActionTime = 1000700, IPAddress = str ''t@x''\<rparr>],
       held = False, sleeps = []\<rparr>)"
  by (simp add: handler_defs js_defs parse_defs config_defs ex_defs)

section \<open>The amount bounds\<close>

lemma decimal_config:
  "decimal 5 = str ''5''"
  "decimal 10000 = str ''10000''"
  by (simp_all add: decimal.simps str_def)

lemma js_rem_zero_iff:
  assumes "0 < q" and "0 < m"
  shows "js_rem (Fin q) (Fin m) = Fin 0 \<longleftrightarrow> (\<exists>k::int. q = m * of_int k)"
proof -
  have nn: "0 \<le> q / m" using assms by simp
  have "js_rem (Fin q) (Fin m) = Fin (q - m * of_int \<lfloor>q / m\<rfloor>)"
    using assms nn by (simp add: truncate_rat_def)
  moreover have "(q - m * of_int \<lfloor>q / m\<rfloor> = 0) \<longleftrightarrow> (\<exists>k::int. q = m * of_int k)"
  proof
    assume "q - m * of_int \<lfloor>q / m\<rfloor> = 0"
    then have "q = m * of_int \<lfloor>q / m\<rfloor>" by simp
    then show "\<exists>k::int. q = m * of_int k" by blast
  next
    assume "\<exists>k::int. q = m * of_int k"
    then obtain k :: int where k: "q = m * of_int k" by blast
    then have "q / m = of_int k" using assms by simp
    then have "\<lfloor>q / m\<rfloor> = k" by simp
    then show "q - m * of_int \<lfloor>q / m\<rfloor> = 0" using k by simp
  qed
  ultimately show ?thesis by simp
qed

text \<open>
  On a finite number the server's function gives: the not-a-number reason for zero, the
  greater-than-zero reason for a negative number, then the minimum, the maximum and the
  multiple-of-5 reasons, and \<open>valid\<close> for the multiples of 5 from 5 to 10000. So 3, 17
  and 10005 are refused and 50 is accepted.
\<close>

lemma validatePaymentAmount_Fin:
  "validatePaymentAmount (JNum (Fin q)) =
     (if q = 0 then \<lparr>valid = False, message = Msg (str ''Amount must be a valid number'')\<rparr>
      else if q < 0 then \<lparr>valid = False, message = Msg (str ''Amount must be greater than zero'')\<rparr>
      else if q < 5 then \<lparr>valid = False, message = Msg (str ''Minimum amount is 5'')\<rparr>
      else if 10000 < q then \<lparr>valid = False, message = Msg (str ''Maximum amount is 10000'')\<rparr>
      else if \<not> (\<exists>k::int. q = 5 * of_int k)
        then \<lparr>valid = False, message = Msg (str ''Amount must be a multiple of 5'')\<rparr>
      else \<lparr>valid = True, message = Msg (str ''Valid amount'')\<rparr>)"
proof (cases "0 < q")
  case True
  then have "(js_rem (Fin q) (Fin 5) = Fin 0) = (\<exists>k::int. q = 5 * of_int k)"
    using js_rem_zero_iff [of q 5] by simp
  with True show ?thesis
    by (simp add: validatePaymentAmount_def js_gt_def Let_def
        decimal_config PAYMENT_AMOUNT_MIN_def MAX_PAYMENT_AMOUNT_def PAYMENT_AMOUNT_MULTIPLE_def
        str_def del: js_rem.simps)
next
  case False
  then show ?thesis
    by (simp add: validatePaymentAmount_def Let_def)
qed

lemma validatePaymentAmount_examples:
  "validatePaymentAmount (JNum (Fin 3))
     = \<lparr>valid = False, message = Msg (str ''Minimum amount is 5'')\<rparr>"
  "validatePaymentAmount (JNum (Fin 17))
     = \<lparr>valid = False, message = Msg (str ''Amount must be a multiple of 5'')\<rparr>"
  "validatePaymentAmount (JNum (Fin 10005))
     = \<lparr>valid = False, message = Msg (str ''Maximum amount is 10000'')\<rparr>"
  "validatePaymentAmount (JNum (Fin 50)) = \<lparr>valid = True, message = Msg (str ''Valid amount'')\<rparr>"
proof -
  have n17: "\<not> (\<exists>k::int. (17::rat) = 5 * of_int k)"
  proof
    assume "\<exists>k::int. (17::rat) = 5 * of_int k"
    then obtain k :: int where "(17::rat) = 5 * of_int k" by blast
    then have "(of_int 17 :: rat) = of_int (5 * k)" by simp
    then have "(17::int) = 5 * k" by (simp only: of_int_eq_iff)
    then show False by presburger
  qed
  have y50: "\<exists>k::int. (50::rat) = 5 * of_int k"
    by (rule exI [of _ 10]) simp
  show "validatePaymentAmount (JNum (Fin 3))
     = \<lparr>valid = False, message = Msg (str ''Minimum amount is 5'')\<rparr>"
    by (simp add: validatePaymentAmount_Fin)
  show "validatePaymentAmount (JNum (Fin 17))
     = \<lparr>valid = False, message = Msg (str ''Amount must be a multiple of 5'')\<rparr>"
    using n17 by (simp add: validatePaymentAmount_Fin)
  show "validatePaymentAmount (JNum (Fin 10005))
     = \<lparr>valid = False, message = Msg (str ''Maximum amount is 10000'')\<rparr>"
    by (simp add: validatePaymentAmount_Fin)
  show "validatePaymentAmount (JNum (Fin 50)) = \<lparr>valid = True, message = Msg (str ''Valid amount'')\<rparr>"
    using y50 by (simp add: validatePaymentAmount_Fin)
qed

lemma validatePaymentAmount_valid_truthy:
  "valid (validatePaymentAmount a) \<Longrightarrow> \<not> falsy a"
  by (auto simp: validatePaymentAmount_def)


section \<open>What a recorded payment implies\<close>

lemma acquireLockWithRetry_sheets:
  assumes "acquireLockWithRetry e k n w = (l, w1)"
  shows "Payments w1 = Payments w" and "Students w1 = Students w" and "AuditLog w1 = AuditLog w"
  using assms by (auto simp: acquireLockWithRetry_def Let_def split: prod.splits if_splits)

lemma validateUniqueReceiptNumber_cong:
  "Payments w1 = Payments w \<Longrightarrow> validateUniqueReceiptNumber e w1 r x = validateUniqueReceiptNumber e w r x"
  by (simp add: validateUniqueReceiptNumber_def)

lemma validateStudentPaymentEligibility_cong:
  "Payments w1 = Payments w \<Longrightarrow> Students w1 = Students w \<Longrightarrow>
   validateStudentPaymentEligibility w1 sid a s = validateStudentPaymentEligibility w sid a s"
  by (simp add: validateStudentPaymentEligibility_def)

lemma generateUniqueReceiptNumber_cong:
  "Payments w1 = Payments w \<Longrightarrow> generateUniqueReceiptNumber e w1 d = generateUniqueReceiptNumber e w d"
  unfolding generateUniqueReceiptNumber_def
  by (simp only: validateUniqueReceiptNumber_cong [of w1 w])


lemma write_Recorded:
  assumes "handleRecordPayment_write e sess sid amount prn key date notes ev now pid srn w
           = (StatusOk (Recorded d), w')"
  shows "\<exists>stu. elig_student ev = Some stu \<and> \<not> throws e AtAppendRow
     \<and> res_paymentId d = pid \<and> res_receiptNo d = srn
     \<and> w' = releaseLock (logAction e (str ''PAYMENT_RECORD'') (sess_user sess) (str ''Payments'') pid
                  \<lparr>det_studentId = sid, det_studentName = fullName stu, det_amount = amount,
                   det_physicalReceiptNo = prn, det_systemReceiptNo = srn, det_paymentDate = date,
                   det_previousTotal = totalPaid ev, det_newTotal = newTotal ev,
                   det_idempotencyKey = key\<rparr>
              (appendRow \<lparr>PaymentID = pid, StudentID = sid, SectionID = sectionId stu,
                   Amount = amount, PaymentDate = date, EnteredBy = sess_user sess,
                   CreatedAt = now, PhysicalReceiptNo = prn, ReceiptUrl = [],
                   IdempotencyKey = key, IsVoided = False, CollectionDayID = [],
                   Notes = notes\<rparr> w))"
  using assms
  by (auto simp: handleRecordPayment_write_def createErrorResponse_def createSuccessResponse_def Let_def
      split: option.splits if_splits)


lemma releaseLock_fields [simp]:
  "Payments (releaseLock w) = Payments w"
  "Students (releaseLock w) = Students w"
  "AuditLog (releaseLock w) = AuditLog w"
  "sleeps (releaseLock w) = sleeps w"
  "held (releaseLock w) = False"
  by (simp_all add: releaseLock_def)

lemma logAction_fields [simp]:
  "Payments (logAction e a u t r dt w) = Payments w"
  "Students (logAction e a u t r dt w) = Students w"
  "sleeps (logAction e a u t r dt w) = sleeps w"
  "held (logAction e a u t r dt w) = held w"
  by (simp_all add: logAction_def split: option.splits)

lemma appendRow_fields [simp]:
  "Students (appendRow row w) = Students w"
  "AuditLog (appendRow row w) = AuditLog w"
  "sleeps (appendRow row w) = sleeps w"
  "held (appendRow row w) = held w"
  by (simp_all add: appendRow_def split: option.splits)

lemma appendRow_Payments:
  "Payments w = Some rows \<Longrightarrow> Payments (appendRow row w) = Some (rows @ [row])"
  by (simp add: appendRow_def)

lemma locked_Recorded:
  assumes "handleRecordPayment_locked e sess sid amount prn key date notes w
           = Inr (StatusOk (Recorded d), w')"
  shows "\<exists>rows. Payments w = Some rows
     \<and> valid (validateStudentPaymentEligibility w sid amount sess)
     \<and> \<not> throws e AtEligibility \<and> \<not> throws e AtPaymentsRead \<and> \<not> throws e AtGenerateReceipt
     \<and> find (\<lambda>row. IdempotencyKey row = key) rows = None
     \<and> find (\<lambda>row. \<not> IsVoided row
                 \<and> toUpperCase e (trim (PhysicalReceiptNo row)) = toUpperCase e prn) rows = None
     \<and> find (\<lambda>row. StudentID row = sid \<and> \<not> IsVoided row
                 \<and> toDateString (PaymentDate row) = toDateString date) rows = None
     \<and> handleRecordPayment_write e sess sid amount prn key date notes
           (validateStudentPaymentEligibility w sid amount sess) (nowCommit e)
           (PAYMENT_ID_PREFIX @ intString (nowCommit e div 1000) @ decimal (idRandom e))
           (generateUniqueReceiptNumber e w date) w = (StatusOk (Recorded d), w')"
  using assms
  by (auto simp: handleRecordPayment_locked_def createErrorResponse_def createSuccessResponse_def
      Let_def split: option.splits if_splits)



lemma handleRecordPayment_flat:
  "handleRecordPayment e session p w =
     (case session of
        None \<Rightarrow> (StatusError (Msg (str ''unauthorized'')), w)
      | Some sess \<Rightarrow>
          if req_studentId p = [] \<or> falsy (JNum (req_amount p)) \<or> trim (req_physicalReceiptNo p) = [] then
            (StatusError (Msg (str ''studentId, amount, and physicalReceiptNo are required'')), w)
          else if \<not> valid (validatePaymentAmount (JNum (req_amount p))) then
            (StatusError (message (validatePaymentAmount (JNum (req_amount p)))), w)
          else if \<not> valid (validateIdempotencyKey w (nowKey e) (requestKey e p)) then
            (case existingPaymentId (validateIdempotencyKey w (nowKey e) (requestKey e p)) of
               None \<Rightarrow> (StatusError (message (validateIdempotencyKey w (nowKey e) (requestKey e p))), w)
             | Some existing \<Rightarrow>
                 if existing = []
                 then (StatusError (message (validateIdempotencyKey w (nowKey e) (requestKey e p))), w)
                 else (StatusOk (Duplicate existing (str ''payment already recorded'')), w))
          else if \<not> valid (validateUniqueReceiptNumber e w (trim (req_physicalReceiptNo p)) []) then
            (StatusError (message (validateUniqueReceiptNumber e w (trim (req_physicalReceiptNo p)) [])), w)
          else if fst (acquireLockWithRetry e (str ''recordPayment_'' @ req_studentId p) 3 w) = None then
            (StatusError (Msg (str ''System is busy processing another payment for this student. ''
                               @ str ''Please wait and try again.'')),
             snd (acquireLockWithRetry e (str ''recordPayment_'' @ req_studentId p) 3 w))
          else
            (case handleRecordPayment_locked e sess (req_studentId p) (req_amount p)
                    (trim (req_physicalReceiptNo p)) (requestKey e p) (requestDate e p)
                    (trim (req_notes p))
                    (snd (acquireLockWithRetry e (str ''recordPayment_'' @ req_studentId p) 3 w)) of
               Inl w2 \<Rightarrow>
                 (StatusError (Msg (str ''Unexpected error occurred. ''
                                    @ str ''Please try again or contact support.'')), releaseLock w2)
             | Inr r \<Rightarrow> r))"
  unfolding handleRecordPayment_def requestKey_def requestDate_def createErrorResponse_def
    createSuccessResponse_def Let_def
  by (simp only: split_beta cong: option.case_cong if_cong)


lemma handleRecordPayment_Recorded_prelock:
  assumes "handleRecordPayment e session p w = (StatusOk (Recorded d), w')"
  shows "\<exists>sess. session = Some sess
     \<and> req_studentId p \<noteq> [] \<and> \<not> falsy (JNum (req_amount p)) \<and> trim (req_physicalReceiptNo p) \<noteq> []
     \<and> valid (validatePaymentAmount (JNum (req_amount p)))
     \<and> valid (validateIdempotencyKey w (nowKey e) (requestKey e p))
     \<and> valid (validateUniqueReceiptNumber e w (trim (req_physicalReceiptNo p)) [])
     \<and> fst (acquireLockWithRetry e (str ''recordPayment_'' @ req_studentId p) 3 w) \<noteq> None
     \<and> handleRecordPayment_locked e sess (req_studentId p) (req_amount p)
           (trim (req_physicalReceiptNo p)) (requestKey e p) (requestDate e p) (trim (req_notes p))
           (snd (acquireLockWithRetry e (str ''recordPayment_'' @ req_studentId p) 3 w))
         = Inr (StatusOk (Recorded d), w')"
proof -
  let ?acq = "acquireLockWithRetry e (str ''recordPayment_'' @ req_studentId p) 3 w"
  note flat = assms [unfolded handleRecordPayment_flat]
  obtain sess where sess: "session = Some sess"
    using flat by (cases session) simp_all
  note flat1 = flat [unfolded sess option.case]
  have req: "\<not> (req_studentId p = [] \<or> falsy (JNum (req_amount p)) \<or> trim (req_physicalReceiptNo p) = [])"
    using flat1 by (auto split: if_splits)
  note flat2 = flat1 [unfolded if_not_P [OF req]]
  have va: "valid (validatePaymentAmount (JNum (req_amount p)))"
    using flat2 by (auto split: if_splits)
  have nva: "\<not> \<not> valid (validatePaymentAmount (JNum (req_amount p)))" using va by simp
  note flat3 = flat2 [unfolded if_not_P [OF nva]]
  have vk: "valid (validateIdempotencyKey w (nowKey e) (requestKey e p))"
    using flat3 by (auto split: if_splits option.splits)
  have nvk: "\<not> \<not> valid (validateIdempotencyKey w (nowKey e) (requestKey e p))" using vk by simp
  note flat4 = flat3 [unfolded if_not_P [OF nvk]]
  have vr: "valid (validateUniqueReceiptNumber e w (trim (req_physicalReceiptNo p)) [])"
    using flat4 by (auto split: if_splits)
  have nvr: "\<not> \<not> valid (validateUniqueReceiptNumber e w (trim (req_physicalReceiptNo p)) [])"
    using vr by simp
  note flat5 = flat4 [unfolded if_not_P [OF nvr]]
  have lk: "fst ?acq \<noteq> None"
    using flat5 by (auto split: if_splits)
  note flat6 = flat5 [unfolded if_not_P [OF lk]]
  have locked: "handleRecordPayment_locked e sess (req_studentId p) (req_amount p)
                   (trim (req_physicalReceiptNo p)) (requestKey e p) (requestDate e p)
                   (trim (req_notes p)) (snd ?acq) = Inr (StatusOk (Recorded d), w')"
    using flat6 by (auto split: sum.splits)
  show ?thesis
    using sess req va vk vr lk locked by simp
qed

lemma handleRecordPayment_Recorded:
  assumes "handleRecordPayment e session p w = (StatusOk (Recorded d), w')"
  shows "\<exists>sess rows stu.
       session = Some sess \<and> Payments w = Some rows
     \<and> req_studentId p \<noteq> [] \<and> trim (req_physicalReceiptNo p) \<noteq> []
     \<and> valid (validatePaymentAmount (JNum (req_amount p)))
     \<and> valid (validateIdempotencyKey w (nowKey e) (requestKey e p))
     \<and> valid (validateUniqueReceiptNumber e w (trim (req_physicalReceiptNo p)) [])
     \<and> valid (validateStudentPaymentEligibility w (req_studentId p) (req_amount p) sess)
     \<and> elig_student (validateStudentPaymentEligibility w (req_studentId p) (req_amount p) sess)
         = Some stu
     \<and> find (\<lambda>row. IdempotencyKey row = requestKey e p) rows = None
     \<and> find (\<lambda>row. \<not> IsVoided row \<and> toUpperCase e (trim (PhysicalReceiptNo row))
                    = toUpperCase e (trim (req_physicalReceiptNo p))) rows = None
     \<and> find (\<lambda>row. StudentID row = req_studentId p \<and> \<not> IsVoided row
                 \<and> toDateString (PaymentDate row) = toDateString (requestDate e p)) rows = None
     \<and> Payments w' = Some (rows @ [committedRow e sess p stu])
     \<and> Students w' = Students w \<and> \<not> held w'
     \<and> res_paymentId d = PaymentID (committedRow e sess p stu)
     \<and> res_receiptNo d = generateUniqueReceiptNumber e w (requestDate e p)"
proof -
  let ?acq = "acquireLockWithRetry e (str ''recordPayment_'' @ req_studentId p) 3 w"
  let ?w1 = "snd ?acq"
  have acq: "?acq = (fst ?acq, ?w1)" by simp
  note sheets = acquireLockWithRetry_sheets [OF acq]
  from handleRecordPayment_Recorded_prelock [OF assms] obtain sess where P:
    "session = Some sess
     \<and> req_studentId p \<noteq> [] \<and> \<not> falsy (JNum (req_amount p)) \<and> trim (req_physicalReceiptNo p) \<noteq> []
     \<and> valid (validatePaymentAmount (JNum (req_amount p)))
     \<and> valid (validateIdempotencyKey w (nowKey e) (requestKey e p))
     \<and> valid (validateUniqueReceiptNumber e w (trim (req_physicalReceiptNo p)) [])
     \<and> fst ?acq \<noteq> None
     \<and> handleRecordPayment_locked e sess (req_studentId p) (req_amount p)
           (trim (req_physicalReceiptNo p)) (requestKey e p) (requestDate e p) (trim (req_notes p))
           ?w1 = Inr (StatusOk (Recorded d), w')" ..
  then have locked: "handleRecordPayment_locked e sess (req_studentId p) (req_amount p)
           (trim (req_physicalReceiptNo p)) (requestKey e p) (requestDate e p) (trim (req_notes p))
           ?w1 = Inr (StatusOk (Recorded d), w')" by simp
  from locked_Recorded [OF locked] obtain rows where R:
    "Payments ?w1 = Some rows
     \<and> valid (validateStudentPaymentEligibility ?w1 (req_studentId p) (req_amount p) sess)
     \<and> \<not> throws e AtEligibility \<and> \<not> throws e AtPaymentsRead \<and> \<not> throws e AtGenerateReceipt
     \<and> find (\<lambda>row. IdempotencyKey row = requestKey e p) rows = None
     \<and> find (\<lambda>row. \<not> IsVoided row
                 \<and> toUpperCase e (trim (PhysicalReceiptNo row))
                     = toUpperCase e (trim (req_physicalReceiptNo p))) rows = None
     \<and> find (\<lambda>row. StudentID row = req_studentId p \<and> \<not> IsVoided row
                 \<and> toDateString (PaymentDate row) = toDateString (requestDate e p)) rows = None
     \<and> handleRecordPayment_write e sess (req_studentId p) (req_amount p)
           (trim (req_physicalReceiptNo p)) (requestKey e p) (requestDate e p) (trim (req_notes p))
           (validateStudentPaymentEligibility ?w1 (req_studentId p) (req_amount p) sess) (nowCommit e)
           (PAYMENT_ID_PREFIX @ intString (nowCommit e div 1000) @ decimal (idRandom e))
           (generateUniqueReceiptNumber e ?w1 (requestDate e p)) ?w1 = (StatusOk (Recorded d), w')" ..
  then have wr: "handleRecordPayment_write e sess (req_studentId p) (req_amount p)
           (trim (req_physicalReceiptNo p)) (requestKey e p) (requestDate e p) (trim (req_notes p))
           (validateStudentPaymentEligibility ?w1 (req_studentId p) (req_amount p) sess) (nowCommit e)
           (PAYMENT_ID_PREFIX @ intString (nowCommit e div 1000) @ decimal (idRandom e))
           (generateUniqueReceiptNumber e ?w1 (requestDate e p)) ?w1 = (StatusOk (Recorded d), w')"
    by simp
  note ev_eq = validateStudentPaymentEligibility_cong
      [OF sheets(1) sheets(2), of "req_studentId p" "req_amount p" sess]
  note gen_eq = generateUniqueReceiptNumber_cong [OF sheets(1), of e "requestDate e p"]
  from write_Recorded [OF wr] obtain stu where
        stu: "elig_student (validateStudentPaymentEligibility ?w1 (req_studentId p) (req_amount p) sess)
              = Some stu"
    and pid: "res_paymentId d = PAYMENT_ID_PREFIX @ intString (nowCommit e div 1000) @ decimal (idRandom e)"
    and rno: "res_receiptNo d = generateUniqueReceiptNumber e ?w1 (requestDate e p)"
    and w': "Payments w' = Payments (appendRow (committedRow e sess p stu) ?w1)"
            "Students w' = Students ?w1" "\<not> held w'"
    by (auto simp: committedRow_def)
  have pw': "Payments w' = Some (rows @ [committedRow e sess p stu])"
    using w'(1) R by (simp add: appendRow_Payments)
  have rows_w: "Payments w = Some rows" using R sheets by simp
  have pidc: "res_paymentId d = PaymentID (committedRow e sess p stu)"
    using pid by (simp add: committedRow_def)
  show ?thesis
    using P rows_w R [unfolded ev_eq] stu [unfolded ev_eq] pw'
      w'(2,3) sheets(2) pidc rno [unfolded gen_eq]
    by (intro exI [of _ sess] exI [of _ rows] exI [of _ stu]) simp
qed

section \<open>Retrying a recorded request\<close>








section \<open>The lock retries\<close>

lemma acquireLoop_all_fail:
  "attempt < m \<Longrightarrow> (\<forall>i. attempt \<le> i \<and> i < m \<longrightarrow> \<not> wl i) \<Longrightarrow>
   acquireLoop wl m attempt slept
     = (False, slept @ map (\<lambda>i. 100 * (i + 1)) [attempt..<m - 1])"
proof (induction wl m attempt slept rule: acquireLoop.induct)
  case (1 wl m attempt slept)
  show ?case
  proof (cases "attempt = m - 1")
    case True
    have "acquireLoop wl m attempt slept = (False, slept)"
      using "1.prems" True by (subst acquireLoop.simps) simp
    with True show ?thesis by simp
  next
    case False
    with "1.prems" have lt: "attempt + 1 < m" and lt': "attempt < m - 1" by simp_all
    have nw: "\<not> wl attempt" using "1.prems" by simp
    have IH: "acquireLoop wl m (attempt + 1) (slept @ [100 * (attempt + 1)])
            = (False, (slept @ [100 * (attempt + 1)]) @ map (\<lambda>i. 100 * (i + 1)) [attempt + 1..<m - 1])"
      using "1.IH" [OF _ nw False lt] "1.prems" by simp
    have "acquireLoop wl m attempt slept
            = acquireLoop wl m (attempt + 1) (slept @ [100 * (attempt + 1)])"
      using "1.prems" nw False by (subst acquireLoop.simps) simp
    with IH lt' show ?thesis
      by (simp add: upt_conv_Cons)
  qed
qed

lemma sorted_backoff: "sorted_wrt (<) (map (\<lambda>i. 100 * (i + 1)) [a..<b::nat])"
  by (simp add: sorted_wrt_map)

lemma validateUniqueReceiptNumber_valid_nonempty:
  "valid (validateUniqueReceiptNumber e w r x) \<Longrightarrow> r \<noteq> []"
  by (auto simp: validateUniqueReceiptNumber_def)

text \<open>
  Claim C9. When no attempt obtains the lock, \<open>acquireLockWithRetry\<close> sleeps
  \<open>100 * (attempt + 1)\<close> milliseconds after each attempt but the last (an increasing
  sequence), makes no further attempt and returns \<open>null\<close>; the recorder, called with
  three attempts, then answers that the system is busy, with no other change of state.
\<close>

theorem lock_retry_exhausted:
  assumes "\<forall>attempt < (if n = 0 then 3 else n). \<not> waitLock e attempt"
  shows "acquireLockWithRetry e lockKey n w
           = (None, w\<lparr>sleeps := sleeps w @ map (\<lambda>attempt. 100 * (attempt + 1))
                                              [0..<(if n = 0 then 3 else n) - 1]\<rparr>)
       \<and> sorted_wrt (<) (map (\<lambda>attempt. 100 * (attempt + 1)) [0..<(if n = 0 then 3 else n) - 1])
       \<and> (n = 3 \<and> session = Some sess \<and> req_studentId p \<noteq> []
            \<and> valid (validatePaymentAmount (JNum (req_amount p)))
            \<and> valid (validateIdempotencyKey w (nowKey e) (requestKey e p))
            \<and> valid (validateUniqueReceiptNumber e w (trim (req_physicalReceiptNo p)) [])
          \<longrightarrow> handleRecordPayment e session p w
              = (StatusError (Msg (str ''System is busy processing another payment for this student. ''
                                   @ str ''Please wait and try again.'')),
                 w\<lparr>sleeps := sleeps w @ [100, 200]\<rparr>))"
proof -
  let ?m = "if n = 0 then 3 else n"
  have pos: "0 < ?m" by simp
  have loop: "acquireLoop (waitLock e) ?m 0 []
              = (False, [] @ map (\<lambda>i. 100 * (i + 1)) [0..<?m - 1])"
    by (rule acquireLoop_all_fail [OF pos]) (use assms in simp)
  have acq: "acquireLockWithRetry e k n w
           = (None, w\<lparr>sleeps := sleeps w @ map (\<lambda>attempt. 100 * (attempt + 1)) [0..<?m - 1]\<rparr>)" for k
    using loop by (simp add: acquireLockWithRetry_def Let_def)
  have upt2: "[0..<2::nat] = [0, 1]" by (simp add: upt_conv_Cons)
  have handler: "handleRecordPayment e session p w
              = (StatusError (Msg (str ''System is busy processing another payment for this student. ''
                                   @ str ''Please wait and try again.'')),
                 w\<lparr>sleeps := sleeps w @ [100, 200]\<rparr>)"
    if "n = 3" "session = Some sess" "req_studentId p \<noteq> []"
       "valid (validatePaymentAmount (JNum (req_amount p)))"
       "valid (validateIdempotencyKey w (nowKey e) (requestKey e p))"
       "valid (validateUniqueReceiptNumber e w (trim (req_physicalReceiptNo p)) [])"
    using that acq [of "str ''recordPayment_'' @ req_studentId p"]
      validateUniqueReceiptNumber_valid_nonempty [OF that(6)]
      validatePaymentAmount_valid_truthy [OF that(4)]
    by (simp add: handleRecordPayment_flat upt2)
  show ?thesis
    using acq [of lockKey] sorted_backoff handler by blast
qed

theorem lock_retry_exhausted_witness:
  "acquireLockWithRetry (ex_env\<lparr>waitLock := (\<lambda>attempt. False)\<rparr>) (str ''recordPayment_S1'') 3 ex_world
     = (None, ex_world\<lparr>sleeps := [100, 200]\<rparr>)
   \<and> handleRecordPayment (ex_env\<lparr>waitLock := (\<lambda>attempt. False)\<rparr>) (Some ex_session) ex_payload ex_world
     = (StatusError (Msg (str ''System is busy processing another payment for this student. Please wait and try again.'')),
        ex_world\<lparr>sleeps := [100, 200]\<rparr>)"
proof -
  have upt2: "[0..<2::nat] = [0, 1]" by (simp add: upt_conv_Cons)
  have va: "valid (validatePaymentAmount (JNum (req_amount ex_payload)))"
    by (simp add: handler_defs js_defs parse_defs config_defs ex_defs)
  have vk: "valid (validateIdempotencyKey ex_world (nowKey (ex_env\<lparr>waitLock := (\<lambda>attempt. False)\<rparr>))
                    (requestKey (ex_env\<lparr>waitLock := (\<lambda>attempt. False)\<rparr>) ex_payload))"
    by (simp add: handler_defs js_defs parse_defs config_defs ex_defs requestKey_def)
  have vr: "valid (validateUniqueReceiptNumber (ex_env\<lparr>waitLock := (\<lambda>attempt. False)\<rparr>) ex_world (trim (req_physicalReceiptNo ex_payload)) [])"
    by (simp add: handler_defs js_defs parse_defs config_defs ex_defs)
  show ?thesis
    using lock_retry_exhausted [of 3 "ex_env\<lparr>waitLock := (\<lambda>attempt. False)\<rparr>"
        "(str ''recordPayment_S1'')" ex_world "Some ex_session" ex_session ex_payload] va vk vr
    by (simp add: upt2 ex_world_def ex_payload_def str_def)
qed

section \<open>The lock is released on every exit\<close>

lemma write_released:
  "\<not> held (snd (handleRecordPayment_write e sess sid amount prn key date nts ev now pid srn w))"
  by (simp add: handleRecordPayment_write_def Let_def split: option.splits)

lemma write_releasedD:
  "handleRecordPayment_write e sess sid amount prn key date nts ev now pid srn w = (r, w2)
   \<Longrightarrow> \<not> held w2"
  using write_released [of e sess sid amount prn key date nts ev now pid srn w] by simp

lemma locked_released:
  assumes "handleRecordPayment_locked e sess sid amount prn key date nts w = Inr (r, w2)"
  shows "\<not> held w2"
  using assms
  by (auto simp: handleRecordPayment_locked_def Let_def split: if_splits option.splits
      dest: write_releasedD)

lemma acquireLockWithRetry_held:
  "fst (acquireLockWithRetry e k n w) = None \<Longrightarrow> held (snd (acquireLockWithRetry e k n w)) = held w"
  by (auto simp: acquireLockWithRetry_def Let_def split: prod.splits if_splits)

lemma handleRecordPayment_world_cases:
  "snd (handleRecordPayment e session p w) = w
   \<or> (fst (acquireLockWithRetry e (str ''recordPayment_'' @ req_studentId p) 3 w) = None
      \<and> snd (handleRecordPayment e session p w)
          = snd (acquireLockWithRetry e (str ''recordPayment_'' @ req_studentId p) 3 w))
   \<or> (\<exists>sess. session = Some sess
      \<and> fst (acquireLockWithRetry e (str ''recordPayment_'' @ req_studentId p) 3 w) \<noteq> None
      \<and> handleRecordPayment e session p w
          = (case handleRecordPayment_locked e sess (req_studentId p) (req_amount p)
                    (trim (req_physicalReceiptNo p)) (requestKey e p) (requestDate e p)
                    (trim (req_notes p))
                    (snd (acquireLockWithRetry e (str ''recordPayment_'' @ req_studentId p) 3 w)) of
               Inl w2 \<Rightarrow>
                 (StatusError (Msg (str ''Unexpected error occurred. ''
                                    @ str ''Please try again or contact support.'')), releaseLock w2)
             | Inr r \<Rightarrow> r))"
proof (cases session)
  case None
  then show ?thesis by (simp add: handleRecordPayment_flat)
next
  case (Some sess)
  show ?thesis
  proof (cases "req_studentId p = [] \<or> falsy (JNum (req_amount p)) \<or> trim (req_physicalReceiptNo p) = []")
    case True
    with Some show ?thesis by (simp add: handleRecordPayment_flat)
  next
    case c1: False
    show ?thesis
    proof (cases "valid (validatePaymentAmount (JNum (req_amount p)))")
      case False
      with Some c1 show ?thesis by (simp add: handleRecordPayment_flat)
    next
      case c2: True
      show ?thesis
      proof (cases "valid (validateIdempotencyKey w (nowKey e) (requestKey e p))")
        case False
        with Some c1 c2 show ?thesis
          by (simp add: handleRecordPayment_flat split: option.splits)
      next
        case c3: True
        show ?thesis
        proof (cases "valid (validateUniqueReceiptNumber e w (trim (req_physicalReceiptNo p)) [])")
          case False
          with Some c1 c2 c3 show ?thesis by (simp add: handleRecordPayment_flat)
        next
          case c4: True
          show ?thesis
          proof (cases "fst (acquireLockWithRetry e (str ''recordPayment_'' @ req_studentId p) 3 w) = None")
            case True
            have "snd (handleRecordPayment e session p w)
                = snd (acquireLockWithRetry e (str ''recordPayment_'' @ req_studentId p) 3 w)"
              unfolding handleRecordPayment_flat using Some c1 c2 c3 c4 True
              by (simp del: append.simps not_None_eq)
            with True show ?thesis by blast
          next
            case False
            have "handleRecordPayment e session p w
                = (case handleRecordPayment_locked e sess (req_studentId p) (req_amount p)
                    (trim (req_physicalReceiptNo p)) (requestKey e p) (requestDate e p)
                    (trim (req_notes p))
                    (snd (acquireLockWithRetry e (str ''recordPayment_'' @ req_studentId p) 3 w)) of
               Inl w2 \<Rightarrow>
                 (StatusError (Msg (str ''Unexpected error occurred. ''
                                    @ str ''Please try again or contact support.'')), releaseLock w2)
             | Inr r \<Rightarrow> r)"
              unfolding handleRecordPayment_flat using Some c1 c2 c3 c4 False
              by (simp del: append.simps not_None_eq)
            with Some False show ?thesis by blast
          qed
        qed
      qed
    qed
  qed
qed

text \<open>
  Claim C4. The part of \<open>handleRecordPayment\<close> that runs with the lock (the \<open>try\<close> block
  and its \<open>catch\<close>) ends with the lock released, whether it returns a success, an
  in-lock validation failure, a failed write, or after an exception; so a handler that
  starts without the lock never returns holding it.
\<close>

theorem lock_released_on_every_exit:
  "\<not> held (snd (case handleRecordPayment_locked e sess sid amount prn key date nts w1 of
                   Inl w2 \<Rightarrow> (createErrorResponse m, releaseLock w2)
                 | Inr r \<Rightarrow> r))
   \<and> (\<not> held w \<longrightarrow> \<not> held (snd (handleRecordPayment e session p w)))"
proof
  show inlock: "\<not> held (snd (case handleRecordPayment_locked e sess sid amount prn key date nts w1 of
                   Inl w2 \<Rightarrow> (createErrorResponse m, releaseLock w2)
                 | Inr r \<Rightarrow> r))" for e sess sid amount prn key date nts w1 m
  proof (cases "handleRecordPayment_locked e sess sid amount prn key date nts w1")
    case (Inl w2)
    then show ?thesis by simp
  next
    case (Inr r)
    obtain resp w2 where r: "r = (resp, w2)" by (cases r)
    with Inr locked_released [of e sess sid amount prn key date nts w1 resp w2]
    show ?thesis by simp
  qed
  show "\<not> held w \<longrightarrow> \<not> held (snd (handleRecordPayment e session p w))"
  proof
    assume free: "\<not> held w"
    let ?acq = "acquireLockWithRetry e (str ''recordPayment_'' @ req_studentId p) 3 w"
    from handleRecordPayment_world_cases [of e session p w]
    show "\<not> held (snd (handleRecordPayment e session p w))"
    proof (elim disjE exE conjE)
      assume "snd (handleRecordPayment e session p w) = w"
      with free show ?thesis by simp
    next
      assume "fst ?acq = None" and "snd (handleRecordPayment e session p w) = snd ?acq"
      with free acquireLockWithRetry_held [of e "str ''recordPayment_'' @ req_studentId p" 3 w]
      show ?thesis by simp
    next
      fix sess
      assume eq: "handleRecordPayment e session p w
          = (case handleRecordPayment_locked e sess (req_studentId p) (req_amount p)
                    (trim (req_physicalReceiptNo p)) (requestKey e p) (requestDate e p)
                    (trim (req_notes p)) (snd ?acq) of
               Inl w2 \<Rightarrow>
                 (StatusError (Msg (str ''Unexpected error occurred. ''
                                    @ str ''Please try again or contact support.'')), releaseLock w2)
             | Inr r \<Rightarrow> r)"
      show ?thesis unfolding eq by (rule inlock [unfolded createErrorResponse_def])
    qed
  qed
qed

theorem lock_released_on_every_exit_witness:
  "fst (handleRecordPayment ex_env (Some ex_session)
          (ex_payload20\<lparr>req_paymentDate := Some ex_date10\<rparr>) ex_world80)
     = StatusError (Msg (str ''A payment for this student has already been recorded today. Use a different date or contact admin to void the existing payment.''))
   \<and> \<not> held (snd (handleRecordPayment ex_env (Some ex_session)
                      (ex_payload20\<lparr>req_paymentDate := Some ex_date10\<rparr>) ex_world80))"
proof -
  have free: "\<not> held ex_world80" by (simp add: ex_world80_def)
  have "fst (handleRecordPayment ex_env (Some ex_session)
          (ex_payload20\<lparr>req_paymentDate := Some ex_date10\<rparr>) ex_world80)
     = StatusError (Msg (str ''A payment for this student has already been recorded today. Use a different date or contact admin to void the existing payment.''))"
    by (simp add: handler_defs js_defs parse_defs config_defs ex_defs)
  then show ?thesis
    using free lock_released_on_every_exit [where w = ex_world80 and e = ex_env
        and session = "Some ex_session"
        and p = "ex_payload20\<lparr>req_paymentDate := Some ex_date10\<rparr>"]
    by simp
qed

section \<open>When a request is recorded\<close>

lemma trim_head:
  assumes "t = [] \<or> \<not> P (hd t)"
  shows "rev (dropWhile P (rev t)) = [] \<or> \<not> P (hd (rev (dropWhile P (rev t))))"
proof (cases "rev (dropWhile P (rev t)) = []")
  case True
  then show ?thesis by simp
next
  case False
  have t: "t = rev (dropWhile P (rev t)) @ rev (takeWhile P (rev t))"
    by (metis rev_append rev_rev_ident takeWhile_dropWhile_id)
  from False have "hd t = hd (rev (dropWhile P (rev t)))"
    by (subst t) simp
  moreover from False t have "t \<noteq> []" by auto
  ultimately show ?thesis using assms by simp
qed

lemma dropWhile_head: "dropWhile P s = [] \<or> \<not> P (hd (dropWhile P s))"
  using hd_dropWhile [of P s] by blast

lemma dropWhile_noop: "s = [] \<or> \<not> P (hd s) \<Longrightarrow> dropWhile P s = s"
  by (cases s) auto

lemma trim_trim: "trim (trim s) = trim s"
proof -
  let ?t = "dropWhile isWhiteSpace s"
  let ?u = "dropWhile isWhiteSpace (rev ?t)"
  have h: "rev ?u = [] \<or> \<not> isWhiteSpace (hd (rev ?u))"
    by (rule trim_head) (rule dropWhile_head)
  have d1: "dropWhile isWhiteSpace (rev ?u) = rev ?u"
    using h by (rule dropWhile_noop)
  have d2: "dropWhile isWhiteSpace ?u = ?u" by simp
  show ?thesis
    unfolding trim_def d1 by (simp del: dropWhile_idem add: d2)
qed

lemma validateUniqueReceiptNumber_valid:
  "valid (validateUniqueReceiptNumber e w r []) \<longleftrightarrow>
     r \<noteq> [] \<and> trim r \<noteq> [] \<and>
     (\<exists>rows. Payments w = Some rows \<and>
        find (\<lambda>row. \<not> IsVoided row
                \<and> toUpperCase e (trim (PhysicalReceiptNo row)) = toUpperCase e (trim r)) rows = None)"
  by (auto simp: validateUniqueReceiptNumber_def Let_def split: option.splits)

lemma validateStudentPaymentEligibility_valid_student:
  "valid (validateStudentPaymentEligibility w sid a sess) \<Longrightarrow>
   \<exists>stu. elig_student (validateStudentPaymentEligibility w sid a sess) = Some stu"
  by (auto simp: validateStudentPaymentEligibility_def Let_def split: option.splits if_splits)

lemma handleRecordPayment_commits:
  assumes sess: "session = Some sess"
    and sid: "req_studentId p \<noteq> []"
    and va: "valid (validatePaymentAmount (JNum (req_amount p)))"
    and vk: "valid (validateIdempotencyKey w (nowKey e) (requestKey e p))"
    and vr: "valid (validateUniqueReceiptNumber e w (trim (req_physicalReceiptNo p)) [])"
    and lk: "fst (acquireLockWithRetry e (str ''recordPayment_'' @ req_studentId p) 3 w) \<noteq> None"
    and nothrow: "\<not> throws e AtEligibility" "\<not> throws e AtPaymentsRead"
                 "\<not> throws e AtGenerateReceipt" "\<not> throws e AtAppendRow"
    and ve: "valid (validateStudentPaymentEligibility w (req_studentId p) (req_amount p) sess)"
    and rows: "Payments w = Some rows"
    and nokey: "find (\<lambda>row. IdempotencyKey row = requestKey e p) rows = None"
    and noday: "find (\<lambda>row. StudentID row = req_studentId p \<and> \<not> IsVoided row
                 \<and> toDateString (PaymentDate row) = toDateString (requestDate e p)) rows = None"
  shows "\<exists>d w' stu. handleRecordPayment e session p w = (StatusOk (Recorded d), w')
           \<and> elig_student (validateStudentPaymentEligibility w (req_studentId p) (req_amount p) sess)
               = Some stu
           \<and> Payments w' = Some (rows @ [committedRow e sess p stu])"
proof -
  define w1 where "w1 = snd (acquireLockWithRetry e (str ''recordPayment_'' @ req_studentId p) 3 w)"
  have acq: "acquireLockWithRetry e (str ''recordPayment_'' @ req_studentId p) 3 w
             = (fst (acquireLockWithRetry e (str ''recordPayment_'' @ req_studentId p) 3 w), w1)"
    by (simp add: w1_def)
  note sheets = acquireLockWithRetry_sheets [OF acq]
  note ev_eq = validateStudentPaymentEligibility_cong
      [OF sheets(1) sheets(2), of "req_studentId p" "req_amount p" sess]
  note gen_eq = generateUniqueReceiptNumber_cong [OF sheets(1), of e "requestDate e p"]
  let ?ev = "validateStudentPaymentEligibility w (req_studentId p) (req_amount p) sess"
  from validateStudentPaymentEligibility_valid_student [OF ve]
  obtain stu where stu: "elig_student ?ev = Some stu" ..
  have prn: "trim (req_physicalReceiptNo p) \<noteq> []"
    using vr by (simp add: validateUniqueReceiptNumber_valid)
  have norec: "find (\<lambda>row. \<not> IsVoided row
                \<and> toUpperCase e (trim (PhysicalReceiptNo row))
                    = toUpperCase e (trim (req_physicalReceiptNo p))) rows = None"
    using vr rows by (simp add: validateUniqueReceiptNumber_valid trim_trim)
  have truthy: "\<not> falsy (JNum (req_amount p))"
    using va by (rule validatePaymentAmount_valid_truthy)
  have rows1: "Payments w1 = Some rows" using rows sheets by simp
  let ?pid = "PAYMENT_ID_PREFIX @ intString (nowCommit e div 1000) @ decimal (idRandom e)"
  have locked: "handleRecordPayment_locked e sess (req_studentId p) (req_amount p)
           (trim (req_physicalReceiptNo p)) (requestKey e p) (requestDate e p) (trim (req_notes p)) w1
        = Inr (handleRecordPayment_write e sess (req_studentId p) (req_amount p)
           (trim (req_physicalReceiptNo p)) (requestKey e p) (requestDate e p) (trim (req_notes p))
           ?ev (nowCommit e) ?pid (generateUniqueReceiptNumber e w (requestDate e p)) w1)"
    using nothrow ve rows1 nokey norec noday
    by (simp add: handleRecordPayment_locked_def ev_eq gen_eq Let_def)
  obtain d w' where wr: "handleRecordPayment_write e sess (req_studentId p) (req_amount p)
           (trim (req_physicalReceiptNo p)) (requestKey e p) (requestDate e p) (trim (req_notes p))
           ?ev (nowCommit e) ?pid (generateUniqueReceiptNumber e w (requestDate e p)) w1
         = (StatusOk (Recorded d), w')"
      and pw': "Payments w' = Some (rows @ [committedRow e sess p stu])"
    using stu nothrow rows1
    by (simp add: handleRecordPayment_write_def createSuccessResponse_def Let_def
        committedRow_def appendRow_Payments)
  have "handleRecordPayment e session p w = (StatusOk (Recorded d), w')"
    unfolding handleRecordPayment_flat w1_def [symmetric]
    using sess sid truthy prn va vk vr lk locked wr
    by (simp del: append.simps not_None_eq)
  with stu pw' show ?thesis by blast
qed






section \<open>One payment per student and day\<close>









section \<open>Receipt numbers are used once\<close>

lemma validateUniqueReceiptNumber_used:
  assumes "r \<noteq> []" and "trim r \<noteq> []" and "Payments w = Some rows"
    and "find (\<lambda>row. \<not> IsVoided row
                \<and> toUpperCase e (trim (PhysicalReceiptNo row)) = toUpperCase e (trim r)) rows = Some c"
  shows "validateUniqueReceiptNumber e w r [] =
     \<lparr>valid = False,
      message = Msg (str ''Receipt number '' @ [0x22] @ r @ [0x22]
                     @ str '' already used in payment '' @ PaymentID c)\<rparr>"
  using assms by (simp add: validateUniqueReceiptNumber_def Let_def del: append.simps)

text \<open>
  Claim C6. Two receipt numbers are the same when their texts, with the white space at
  both ends removed and put in upper case by the platform, are equal. When a payment
  that is not voided carries the receipt number of the request, a request with a live
  session, a student, a valid amount and a fresh idempotency key is answered with the
  error that names the receipt number and the payment id of such a payment, and nothing
  changes. When every payment carrying that receipt number is voided, the receipt check
  accepts the number, and a request that passes the other checks is recorded with it.
\<close>

theorem receipt_number_used_once:
  assumes rows: "Payments w = Some rows"
    and prn: "trim (req_physicalReceiptNo p) \<noteq> []"
  shows "((\<exists>q \<in> set rows. \<not> IsVoided q
              \<and> toUpperCase e (trim (PhysicalReceiptNo q))
                  = toUpperCase e (trim (req_physicalReceiptNo p)))
            \<and> session = Some sess \<and> req_studentId p \<noteq> []
            \<and> valid (validatePaymentAmount (JNum (req_amount p)))
            \<and> valid (validateIdempotencyKey w (nowKey e) (requestKey e p))
          \<longrightarrow> (\<exists>c \<in> set rows. \<not> IsVoided c
                \<and> toUpperCase e (trim (PhysicalReceiptNo c))
                    = toUpperCase e (trim (req_physicalReceiptNo p))
                \<and> handleRecordPayment e session p w
                    = (StatusError (Msg (str ''Receipt number '' @ [0x22]
                                         @ trim (req_physicalReceiptNo p) @ [0x22]
                                         @ str '' already used in payment '' @ PaymentID c)), w)))
       \<and> ((\<forall>q \<in> set rows. toUpperCase e (trim (PhysicalReceiptNo q))
                              = toUpperCase e (trim (req_physicalReceiptNo p)) \<longrightarrow> IsVoided q)
          \<longrightarrow> valid (validateUniqueReceiptNumber e w (trim (req_physicalReceiptNo p)) [])
              \<and> (session = Some sess \<and> req_studentId p \<noteq> []
                  \<and> valid (validatePaymentAmount (JNum (req_amount p)))
                  \<and> valid (validateIdempotencyKey w (nowKey e) (requestKey e p))
                  \<and> find (\<lambda>row. IdempotencyKey row = requestKey e p) rows = None
                  \<and> fst (acquireLockWithRetry e (str ''recordPayment_'' @ req_studentId p) 3 w) \<noteq> None
                  \<and> \<not> throws e AtEligibility \<and> \<not> throws e AtPaymentsRead
                  \<and> \<not> throws e AtGenerateReceipt \<and> \<not> throws e AtAppendRow
                  \<and> valid (validateStudentPaymentEligibility w (req_studentId p) (req_amount p) sess)
                  \<and> find (\<lambda>row. StudentID row = req_studentId p \<and> \<not> IsVoided row
                        \<and> toDateString (PaymentDate row) = toDateString (requestDate e p)) rows
                      = None
                 \<longrightarrow> (\<exists>d stu. fst (handleRecordPayment e session p w) = StatusOk (Recorded d)
                       \<and> Payments (snd (handleRecordPayment e session p w))
                           = Some (rows @ [committedRow e sess p stu]))))"
proof (intro conjI impI)
  let ?P = "\<lambda>row. \<not> IsVoided row
                \<and> toUpperCase e (trim (PhysicalReceiptNo row))
                    = toUpperCase e (trim (trim (req_physicalReceiptNo p)))"
  assume H: "(\<exists>q \<in> set rows. \<not> IsVoided q
              \<and> toUpperCase e (trim (PhysicalReceiptNo q))
                  = toUpperCase e (trim (req_physicalReceiptNo p)))
            \<and> session = Some sess \<and> req_studentId p \<noteq> []
            \<and> valid (validatePaymentAmount (JNum (req_amount p)))
            \<and> valid (validateIdempotencyKey w (nowKey e) (requestKey e p))"
  then have "find ?P rows \<noteq> None"
    by (auto simp: find_None_iff trim_trim)
  then obtain c where c: "find ?P rows = Some c" by blast
  then have cin: "c \<in> set rows" and cP: "?P c"
    by (auto simp: find_Some_iff in_set_conv_nth)
  have inv: "validateUniqueReceiptNumber e w (trim (req_physicalReceiptNo p)) [] =
     \<lparr>valid = False,
      message = Msg (str ''Receipt number '' @ [0x22] @ trim (req_physicalReceiptNo p) @ [0x22]
                     @ str '' already used in payment '' @ PaymentID c)\<rparr>"
    by (rule validateUniqueReceiptNumber_used [OF prn _ rows c]) (simp add: trim_trim prn)
  have truthy: "\<not> falsy (JNum (req_amount p))"
    using H validatePaymentAmount_valid_truthy [of "JNum (req_amount p)"] by blast
  have "handleRecordPayment e session p w
        = (StatusError (Msg (str ''Receipt number '' @ [0x22]
                                         @ trim (req_physicalReceiptNo p) @ [0x22]
                                         @ str '' already used in payment '' @ PaymentID c)), w)"
    unfolding handleRecordPayment_flat using H truthy prn inv
    by (simp del: append.simps)
  with cin cP show "\<exists>c \<in> set rows. \<not> IsVoided c
                \<and> toUpperCase e (trim (PhysicalReceiptNo c))
                    = toUpperCase e (trim (req_physicalReceiptNo p))
                \<and> handleRecordPayment e session p w
                    = (StatusError (Msg (str ''Receipt number '' @ [0x22]
                                         @ trim (req_physicalReceiptNo p) @ [0x22]
                                         @ str '' already used in payment '' @ PaymentID c)), w)"
    by (auto simp: trim_trim)
next
  assume V: "\<forall>q \<in> set rows. toUpperCase e (trim (PhysicalReceiptNo q))
                              = toUpperCase e (trim (req_physicalReceiptNo p)) \<longrightarrow> IsVoided q"
  show vr: "valid (validateUniqueReceiptNumber e w (trim (req_physicalReceiptNo p)) [])"
    using V rows prn
    by (auto simp: validateUniqueReceiptNumber_valid trim_trim find_None_iff)
  assume H: "session = Some sess \<and> req_studentId p \<noteq> []
                  \<and> valid (validatePaymentAmount (JNum (req_amount p)))
                  \<and> valid (validateIdempotencyKey w (nowKey e) (requestKey e p))
                  \<and> find (\<lambda>row. IdempotencyKey row = requestKey e p) rows = None
                  \<and> fst (acquireLockWithRetry e (str ''recordPayment_'' @ req_studentId p) 3 w) \<noteq> None
                  \<and> \<not> throws e AtEligibility \<and> \<not> throws e AtPaymentsRead
                  \<and> \<not> throws e AtGenerateReceipt \<and> \<not> throws e AtAppendRow
                  \<and> valid (validateStudentPaymentEligibility w (req_studentId p) (req_amount p) sess)
                  \<and> find (\<lambda>row. StudentID row = req_studentId p \<and> \<not> IsVoided row
                        \<and> toDateString (PaymentDate row) = toDateString (requestDate e p)) rows
                      = None"
  from H have "\<exists>d w' stu. handleRecordPayment e session p w = (StatusOk (Recorded d), w')
           \<and> elig_student (validateStudentPaymentEligibility w (req_studentId p) (req_amount p) sess)
               = Some stu
           \<and> Payments w' = Some (rows @ [committedRow e sess p stu])"
    by (intro handleRecordPayment_commits [OF _ _ _ _ vr _ _ _ _ _ _ rows]) simp_all
  then show "\<exists>d stu. fst (handleRecordPayment e session p w) = StatusOk (Recorded d)
                       \<and> Payments (snd (handleRecordPayment e session p w))
                           = Some (rows @ [committedRow e sess p stu])"
    by force
qed


text \<open>
  The receipt \<open>r-001\<close> of the first payment is refused when it comes back in upper
  case between a no-break space and a space, and accepted once that payment is voided.
\<close>

theorem receipt_number_used_once_witness:
  "handleRecordPayment ex_env (Some ex_session)
       (ex_payload20\<lparr>req_physicalReceiptNo := 0xA0 # str ''R-001 ''\<rparr>) ex_world80
     = (StatusError (Msg (str ''Receipt number '' @ [0x22] @ str ''R-001'' @ [0x22]
                          @ str '' already used in payment P10007'')), ex_world80)
   \<and> (\<exists>d stu. fst (handleRecordPayment ex_env (Some ex_session)
                      (ex_payload20\<lparr>req_physicalReceiptNo := 0xA0 # str ''R-001 ''\<rparr>)
                      (ex_world80\<lparr>Payments := Some [ex_payment80\<lparr>IsVoided := True\<rparr>]\<rparr>))
                = StatusOk (Recorded d)
        \<and> Payments (snd (handleRecordPayment ex_env (Some ex_session)
                      (ex_payload20\<lparr>req_physicalReceiptNo := 0xA0 # str ''R-001 ''\<rparr>)
                      (ex_world80\<lparr>Payments := Some [ex_payment80\<lparr>IsVoided := True\<rparr>]\<rparr>)))
            = Some ([ex_payment80\<lparr>IsVoided := True\<rparr>]
                    @ [committedRow ex_env ex_session
                         (ex_payload20\<lparr>req_physicalReceiptNo := 0xA0 # str ''R-001 ''\<rparr>) stu]))"
proof -
  let ?p = "ex_payload20\<lparr>req_physicalReceiptNo := 0xA0 # str ''R-001 ''\<rparr>"
  let ?wv = "ex_world80\<lparr>Payments := Some [ex_payment80\<lparr>IsVoided := True\<rparr>]\<rparr>"
  have tr: "trim (0xA0 # str ''R-001 '') = str ''R-001''"
    by (simp add: js_defs)
  have rows: "Payments ex_world80 = Some [ex_payment80]"
    and rowsv: "Payments ?wv = Some [ex_payment80\<lparr>IsVoided := True\<rparr>]"
    by (simp_all add: ex_world80_def)
  have ne: "str ''R-001'' \<noteq> []"
    by (simp add: str_def)
  have prn: "trim (req_physicalReceiptNo ?p) \<noteq> []"
    using ne by (simp add: tr)
  have used: "(\<exists>q \<in> set [ex_payment80]. \<not> IsVoided q
              \<and> toUpperCase ex_env (trim (PhysicalReceiptNo q))
                  = toUpperCase ex_env (trim (req_physicalReceiptNo ?p)))
            \<and> Some ex_session = Some ex_session \<and> req_studentId ?p \<noteq> []
            \<and> valid (validatePaymentAmount (JNum (req_amount ?p)))
            \<and> valid (validateIdempotencyKey ex_world80 (nowKey ex_env) (requestKey ex_env ?p))"
    by (simp add: handler_defs js_defs parse_defs config_defs ex_defs requestKey_def)
  have voided: "\<forall>q \<in> set [ex_payment80\<lparr>IsVoided := True\<rparr>].
       toUpperCase ex_env (trim (PhysicalReceiptNo q))
         = toUpperCase ex_env (trim (req_physicalReceiptNo ?p))
       \<longrightarrow> IsVoided q"
    by simp
  have other: "Some ex_session = Some ex_session \<and> req_studentId ?p \<noteq> []
      \<and> valid (validatePaymentAmount (JNum (req_amount ?p)))
      \<and> valid (validateIdempotencyKey ?wv (nowKey ex_env) (requestKey ex_env ?p))
      \<and> find (\<lambda>row. IdempotencyKey row = requestKey ex_env ?p) [ex_payment80\<lparr>IsVoided := True\<rparr>]
          = None
      \<and> fst (acquireLockWithRetry ex_env (str ''recordPayment_'' @ req_studentId ?p) 3 ?wv) \<noteq> None
      \<and> \<not> throws ex_env AtEligibility \<and> \<not> throws ex_env AtPaymentsRead
      \<and> \<not> throws ex_env AtGenerateReceipt \<and> \<not> throws ex_env AtAppendRow
      \<and> valid (validateStudentPaymentEligibility ?wv (req_studentId ?p) (req_amount ?p) ex_session)
      \<and> find (\<lambda>row. StudentID row = req_studentId ?p \<and> \<not> IsVoided row
                \<and> toDateString (PaymentDate row) = toDateString (requestDate ex_env ?p))
              [ex_payment80\<lparr>IsVoided := True\<rparr>] = None"
    by (simp add: handler_defs js_defs parse_defs config_defs ex_defs requestKey_def requestDate_def)
  note T1 = receipt_number_used_once [OF rows prn, where e = ex_env and session = "Some ex_session"
      and sess = ex_session]
  note T2 = receipt_number_used_once [OF rowsv prn, where e = ex_env and session = "Some ex_session"
      and sess = ex_session]
  have A: "\<exists>c \<in> set [ex_payment80]. \<not> IsVoided c
                \<and> toUpperCase ex_env (trim (PhysicalReceiptNo c))
                    = toUpperCase ex_env (trim (req_physicalReceiptNo ?p))
                \<and> handleRecordPayment ex_env (Some ex_session) ?p ex_world80
                    = (StatusError (Msg (str ''Receipt number '' @ [0x22]
                                         @ trim (req_physicalReceiptNo ?p) @ [0x22]
                                         @ str '' already used in payment '' @ PaymentID c)),
                       ex_world80)"
    using T1 used by blast
  then have A': "handleRecordPayment ex_env (Some ex_session) ?p ex_world80
     = (StatusError (Msg (str ''Receipt number '' @ [0x22] @ str ''R-001'' @ [0x22]
                          @ str '' already used in payment P10007'')), ex_world80)"
    by (simp add: ex_payment80_def js_defs)
  have B: "\<exists>d stu. fst (handleRecordPayment ex_env (Some ex_session) ?p ?wv) = StatusOk (Recorded d)
        \<and> Payments (snd (handleRecordPayment ex_env (Some ex_session) ?p ?wv))
            = Some ([ex_payment80\<lparr>IsVoided := True\<rparr>]
                    @ [committedRow ex_env ex_session ?p stu])"
    using T2 voided other by blast
  from A' B show ?thesis by blast
qed

section \<open>The expected amount as a ceiling\<close>

text \<open>
  The status text \<open>Active\<close> holds no number, and a date in the place of the active flag
  counts as true. So for a student row as \<open>handleCreateSection\<close> writes it, the
  comparison \<open>expectedAmount > 0\<close> is false and no amount is refused, whatever the
  expected amount in cell 6 is.
\<close>

lemma parseFloat_Active:
  "parseFloat (js_or (JStr (str ''Active'')) (JNum (Fin 0))) = NaN"
  by (simp add: js_defs parse_defs)

lemma status_text_gives_no_ceiling:
  assumes "Students w = Some stuRows" and "Payments w = Some rows"
    and "find (\<lambda>row. row_StudentID row = sid) stuRows = Some row"
    and "row_Status row = JStr (str ''Active'')" and "row_CreatedAt row = JDate d"
    and "sess_role sess = str ''Treasurer'' \<longrightarrow> row_SectionID row = sess_section sess"
  shows "valid (validateStudentPaymentEligibility w sid amount sess)"
  using assms
  by (simp add: validateStudentPaymentEligibility_def Let_def parseFloat_Active js_gt_def)

text \<open>
  Claim C2 fails on the code. \<open>validateStudentPaymentEligibility\<close> takes the expected
  amount from cell 4 of the student's row and the active flag from cell 5, where the
  header of the sheet, \<open>handleCreateSection\<close> and the other readers of the sheet have
  the status in cell 4, the creation date in cell 5 and the expected amount in cell 6.
  For the student of the examples (expected amount 100, one payment of 80) a payment of
  25 is recorded, and the payments of the student then add up to 105. Had the row the
  expected amount in cell 4 and a flag in cell 5, the same request would be refused and
  a payment of 20 accepted, as the claim says; and an expected amount of 0 there would
  refuse nothing, since the check only compares with an expected amount above zero.
\<close>

theorem expected_amount_not_enforced:
  "row_ExpectedAmount ex_student = JNum (Fin 100)
   \<and> sumPayments (str ''S1'') [ex_payment80] = Fin 80
   \<and> fst (handleRecordPayment ex_env (Some ex_session) ex_payload25 ex_world80)
       = StatusOk (Recorded
           \<lparr>res_paymentId = str ''P10007'', res_receiptNo = str ''R-20240111-042'',
            res_physicalReceiptNo = str ''R-002'', res_studentName = str ''Ana'',
            res_amount = Fin 25, res_paymentDate = ex_date11,
            res_previousTotal = Some (Fin 80), res_newTotal = Some (Fin 105),
            res_message = str ''Payment recorded successfully''\<rparr>)
   \<and> Payments (snd (handleRecordPayment ex_env (Some ex_session) ex_payload25 ex_world80))
       = Some [ex_payment80, ex_payment25]
   \<and> sumPayments (str ''S1'') [ex_payment80, ex_payment25] = Fin 105
   \<and> js_gt (Fin 105) (Fin 100)
   \<and> validateStudentPaymentEligibility (ex_world80\<lparr>Students := Some [ex_student_as_read]\<rparr>)
         (str ''S1'') (Fin 25) ex_session
       = \<lparr>valid = False, message = ExceedsExpected (Fin 100) (Fin 80) (Fin 105),
          elig_student = None, totalPaid = None, newTotal = None\<rparr>
   \<and> valid (validateStudentPaymentEligibility
              (ex_world80\<lparr>Students := Some [ex_student_as_read]\<rparr>)
              (str ''S1'') (Fin 20) ex_session)
   \<and> valid (validateStudentPaymentEligibility
              (ex_world80\<lparr>Students := Some [ex_student_as_read\<lparr>row_Status := JNum (Fin 0)\<rparr>]\<rparr>)
              (str ''S1'') (Fin 25) ex_session)"
  by (simp add: handler_defs js_defs parse_defs config_defs ex_defs)

section \<open>Where the system receipt reference goes\<close>

lemma logAction_AuditLog:
  "AuditLog (logAction e a u t r dt w) =
     (if throws e AtLogAction then AuditLog w
      else case AuditLog w of
             None \<Rightarrow> None
           | Some entries \<Rightarrow>
               Some (entries @
                 [\<lparr>LogID = str ''L'' @ intString (nowLog e div 1000) @ decimal (logRandom e),
                   User = (if u = [] then str ''System'' else u),
                   ActionType = a, Table = t, RecordID = r, Details = dt,
                   ActionTime = nowLog e,
                   IPAddress = (if activeUserEmail e = [] then str ''unknown''
                                else activeUserEmail e)\<rparr>]))"
  by (simp add: logAction_def split: option.splits)

lemma handleRecordPayment_Recorded_env:
  assumes "handleRecordPayment e session p w = (StatusOk (Recorded d), w')"
  shows "fst (acquireLockWithRetry e (str ''recordPayment_'' @ req_studentId p) 3 w) \<noteq> None
     \<and> \<not> throws e AtEligibility \<and> \<not> throws e AtPaymentsRead
     \<and> \<not> throws e AtGenerateReceipt \<and> \<not> throws e AtAppendRow
     \<and> (throws e AtLogAction \<or> AuditLog w = None \<longrightarrow> AuditLog w' = AuditLog w)
     \<and> (\<forall>entries. \<not> throws e AtLogAction \<and> AuditLog w = Some entries \<longrightarrow>
          (\<exists>entry. AuditLog w' = Some (entries @ [entry])
             \<and> ActionType entry = str ''PAYMENT_RECORD'' \<and> RecordID entry = res_paymentId d
             \<and> det_systemReceiptNo (Details entry) = res_receiptNo d))"
proof -
  define w1 where "w1 = snd (acquireLockWithRetry e (str ''recordPayment_'' @ req_studentId p) 3 w)"
  have acq: "acquireLockWithRetry e (str ''recordPayment_'' @ req_studentId p) 3 w
             = (fst (acquireLockWithRetry e (str ''recordPayment_'' @ req_studentId p) 3 w), w1)"
    by (simp add: w1_def)
  note sheets = acquireLockWithRetry_sheets [OF acq]
  from handleRecordPayment_Recorded_prelock [OF assms, folded w1_def] obtain sess where
        lk: "fst (acquireLockWithRetry e (str ''recordPayment_'' @ req_studentId p) 3 w) \<noteq> None"
    and locked: "handleRecordPayment_locked e sess (req_studentId p) (req_amount p)
           (trim (req_physicalReceiptNo p)) (requestKey e p) (requestDate e p) (trim (req_notes p))
           w1 = Inr (StatusOk (Recorded d), w')"
    by blast
  from locked_Recorded [OF locked] obtain rows where R:
    "Payments w1 = Some rows
     \<and> valid (validateStudentPaymentEligibility w1 (req_studentId p) (req_amount p) sess)
     \<and> \<not> throws e AtEligibility \<and> \<not> throws e AtPaymentsRead \<and> \<not> throws e AtGenerateReceipt
     \<and> find (\<lambda>row. IdempotencyKey row = requestKey e p) rows = None
     \<and> find (\<lambda>row. \<not> IsVoided row
                 \<and> toUpperCase e (trim (PhysicalReceiptNo row))
                     = toUpperCase e (trim (req_physicalReceiptNo p))) rows = None
     \<and> find (\<lambda>row. StudentID row = req_studentId p \<and> \<not> IsVoided row
                 \<and> toDateString (PaymentDate row) = toDateString (requestDate e p)) rows = None
     \<and> handleRecordPayment_write e sess (req_studentId p) (req_amount p)
           (trim (req_physicalReceiptNo p)) (requestKey e p) (requestDate e p) (trim (req_notes p))
           (validateStudentPaymentEligibility w1 (req_studentId p) (req_amount p) sess) (nowCommit e)
           (PAYMENT_ID_PREFIX @ intString (nowCommit e div 1000) @ decimal (idRandom e))
           (generateUniqueReceiptNumber e w1 (requestDate e p)) w1 = (StatusOk (Recorded d), w')" ..
  then have
        nt: "\<not> throws e AtEligibility" "\<not> throws e AtPaymentsRead" "\<not> throws e AtGenerateReceipt"
    and wr: "handleRecordPayment_write e sess (req_studentId p) (req_amount p)
           (trim (req_physicalReceiptNo p)) (requestKey e p) (requestDate e p) (trim (req_notes p))
           (validateStudentPaymentEligibility w1 (req_studentId p) (req_amount p) sess) (nowCommit e)
           (PAYMENT_ID_PREFIX @ intString (nowCommit e div 1000) @ decimal (idRandom e))
           (generateUniqueReceiptNumber e w1 (requestDate e p)) w1 = (StatusOk (Recorded d), w')"
    by simp_all
  let ?pid = "PAYMENT_ID_PREFIX @ intString (nowCommit e div 1000) @ decimal (idRandom e)"
  let ?srn = "generateUniqueReceiptNumber e w1 (requestDate e p)"
  let ?ev = "validateStudentPaymentEligibility w1 (req_studentId p) (req_amount p) sess"
  from write_Recorded [OF wr] obtain stu :: student where W:
    "elig_student ?ev = Some stu \<and> \<not> throws e AtAppendRow
     \<and> res_paymentId d = ?pid \<and> res_receiptNo d = ?srn
     \<and> w' = releaseLock (logAction e (str ''PAYMENT_RECORD'') (sess_user sess) (str ''Payments'') ?pid
                  \<lparr>det_studentId = req_studentId p, det_studentName = fullName stu,
                   det_amount = req_amount p,
                   det_physicalReceiptNo = trim (req_physicalReceiptNo p),
                   det_systemReceiptNo = ?srn, det_paymentDate = requestDate e p,
                   det_previousTotal = totalPaid ?ev, det_newTotal = newTotal ?ev,
                   det_idempotencyKey = requestKey e p\<rparr>
              (appendRow \<lparr>PaymentID = ?pid, StudentID = req_studentId p,
                   SectionID = sectionId stu,
                   Amount = req_amount p, PaymentDate = requestDate e p,
                   EnteredBy = sess_user sess,
                   CreatedAt = nowCommit e, PhysicalReceiptNo = trim (req_physicalReceiptNo p),
                   ReceiptUrl = [],
                   IdempotencyKey = requestKey e p, IsVoided = False, CollectionDayID = [],
                   Notes = trim (req_notes p)\<rparr> w1))" ..
  then have na: "\<not> throws e AtAppendRow" and pid: "res_paymentId d = ?pid"
    and rno: "res_receiptNo d = ?srn"
    by simp_all
  define dt where "dt = \<lparr>det_studentId = req_studentId p, det_studentName = fullName stu,
                   det_amount = req_amount p,
                   det_physicalReceiptNo = trim (req_physicalReceiptNo p),
                   det_systemReceiptNo = ?srn, det_paymentDate = requestDate e p,
                   det_previousTotal = totalPaid ?ev, det_newTotal = newTotal ?ev,
                   det_idempotencyKey = requestKey e p\<rparr>"
  define row where "row = \<lparr>PaymentID = ?pid, StudentID = req_studentId p,
                   SectionID = sectionId stu,
                   Amount = req_amount p, PaymentDate = requestDate e p,
                   EnteredBy = sess_user sess,
                   CreatedAt = nowCommit e, PhysicalReceiptNo = trim (req_physicalReceiptNo p),
                   ReceiptUrl = [],
                   IdempotencyKey = requestKey e p, IsVoided = False, CollectionDayID = [],
                   Notes = trim (req_notes p)\<rparr>"
  have w': "w' = releaseLock (logAction e (str ''PAYMENT_RECORD'') (sess_user sess) (str ''Payments'') ?pid dt
                                (appendRow row w1))"
    using W by (simp add: dt_def row_def)
  have dsrn: "det_systemReceiptNo dt = ?srn" by (simp add: dt_def)
  have a1: "AuditLog (appendRow row w1) = AuditLog w" using sheets(3) by simp
  let ?logged = "logAction e (str ''PAYMENT_RECORD'') (sess_user sess) (str ''Payments'') ?pid dt
                    (appendRow row w1)"
  have aw': "AuditLog w' = AuditLog ?logged" unfolding w' by simp
  have logged: "AuditLog w' =
     (if throws e AtLogAction then AuditLog w
      else case AuditLog w of
             None \<Rightarrow> None
           | Some entries \<Rightarrow>
               Some (entries @
                 [\<lparr>LogID = str ''L'' @ intString (nowLog e div 1000) @ decimal (logRandom e),
                   User = (if sess_user sess = [] then str ''System'' else sess_user sess),
                   ActionType = str ''PAYMENT_RECORD'', Table = str ''Payments'', RecordID = ?pid,
                   Details = dt, ActionTime = nowLog e,
                   IPAddress = (if activeUserEmail e = [] then str ''unknown''
                                else activeUserEmail e)\<rparr>]))"
    unfolding aw' logAction_AuditLog a1 ..
  have audit1: "throws e AtLogAction \<or> AuditLog w = None \<longrightarrow> AuditLog w' = AuditLog w"
    unfolding logged by auto
  have audit2: "\<forall>entries. \<not> throws e AtLogAction \<and> AuditLog w = Some entries \<longrightarrow>
          (\<exists>entry. AuditLog w' = Some (entries @ [entry])
             \<and> ActionType entry = str ''PAYMENT_RECORD'' \<and> RecordID entry = res_paymentId d
             \<and> det_systemReceiptNo (Details entry) = res_receiptNo d)"
    unfolding logged using pid rno dsrn by auto
  show ?thesis using lk nt na audit1 audit2 by simp
qed


lemma receipt_env_irrelevant:
  "requestKey (e\<lparr>receiptRandom := rr, nowFallback := nf\<rparr>) p = requestKey e p"
  "requestDate (e\<lparr>receiptRandom := rr, nowFallback := nf\<rparr>) p = requestDate e p"
  "acquireLockWithRetry (e\<lparr>receiptRandom := rr, nowFallback := nf\<rparr>) k n w
     = acquireLockWithRetry e k n w"
  "committedRow (e\<lparr>receiptRandom := rr, nowFallback := nf\<rparr>) sess p stu
     = committedRow e sess p stu"
  "validateUniqueReceiptNumber (e\<lparr>receiptRandom := rr, nowFallback := nf\<rparr>) w r x
     = validateUniqueReceiptNumber e w r x"
  by (simp_all add: requestKey_def requestDate_def acquireLockWithRetry_def committedRow_def
      validateUniqueReceiptNumber_def split: option.splits)

text \<open>
  Claim C10. When a payment is recorded, the appended row holds the physical receipt
  number of the request (trimmed) and an empty receipt URL; the system receipt reference
  that \<open>generateUniqueReceiptNumber\<close> produced is the \<open>receiptNo\<close> of the response.
  When the audit sheet exists and \<open>logAction\<close> does not fail, one entry is appended to
  it, of type \<open>PAYMENT_RECORD\<close>, for the payment id of the response and with that
  reference as its \<open>systemReceiptNo\<close>; otherwise the audit sheet is as before. The
  students sheet is unchanged. The ledger does not depend on the reference: whatever the
  random draws and the fallback clock of the generation are, the same request is
  recorded with the same ledger, and answered with the reference generated from them.
\<close>

theorem system_receipt_not_in_ledger:
  assumes commit: "handleRecordPayment e session p w = (StatusOk (Recorded d), w')"
  shows "\<exists>sess rows stu.
       session = Some sess \<and> Payments w = Some rows
     \<and> Payments w' = Some (rows @ [committedRow e sess p stu])
     \<and> PhysicalReceiptNo (committedRow e sess p stu) = trim (req_physicalReceiptNo p)
     \<and> ReceiptUrl (committedRow e sess p stu) = []
     \<and> res_receiptNo d = generateUniqueReceiptNumber e w (requestDate e p)
     \<and> Students w' = Students w
     \<and> (throws e AtLogAction \<or> AuditLog w = None \<longrightarrow> AuditLog w' = AuditLog w)
     \<and> (\<forall>entries. \<not> throws e AtLogAction \<and> AuditLog w = Some entries \<longrightarrow>
          (\<exists>entry. AuditLog w' = Some (entries @ [entry])
             \<and> ActionType entry = str ''PAYMENT_RECORD'' \<and> RecordID entry = res_paymentId d
             \<and> det_systemReceiptNo (Details entry) = res_receiptNo d))
     \<and> (\<forall>rr nf. \<exists>d'.
           fst (handleRecordPayment (e\<lparr>receiptRandom := rr, nowFallback := nf\<rparr>) session p w)
             = StatusOk (Recorded d')
         \<and> res_receiptNo d'
             = generateUniqueReceiptNumber (e\<lparr>receiptRandom := rr, nowFallback := nf\<rparr>) w
                 (requestDate e p)
         \<and> Payments (snd (handleRecordPayment (e\<lparr>receiptRandom := rr, nowFallback := nf\<rparr>)
                             session p w)) = Payments w')"
proof -
  let ?ev = "\<lambda>sess. validateStudentPaymentEligibility w (req_studentId p) (req_amount p) sess"
  from handleRecordPayment_Recorded [OF commit] obtain sess rows and stu :: student where I:
    "session = Some sess \<and> Payments w = Some rows
     \<and> req_studentId p \<noteq> [] \<and> trim (req_physicalReceiptNo p) \<noteq> []
     \<and> valid (validatePaymentAmount (JNum (req_amount p)))
     \<and> valid (validateIdempotencyKey w (nowKey e) (requestKey e p))
     \<and> valid (validateUniqueReceiptNumber e w (trim (req_physicalReceiptNo p)) [])
     \<and> valid (?ev sess)
     \<and> elig_student (?ev sess) = Some stu
     \<and> find (\<lambda>row. IdempotencyKey row = requestKey e p) rows = None
     \<and> find (\<lambda>row. \<not> IsVoided row \<and> toUpperCase e (trim (PhysicalReceiptNo row))
                    = toUpperCase e (trim (req_physicalReceiptNo p))) rows = None
     \<and> find (\<lambda>row. StudentID row = req_studentId p \<and> \<not> IsVoided row
                 \<and> toDateString (PaymentDate row) = toDateString (requestDate e p)) rows = None
     \<and> Payments w' = Some (rows @ [committedRow e sess p stu])
     \<and> Students w' = Students w \<and> \<not> held w'
     \<and> res_paymentId d = PaymentID (committedRow e sess p stu)
     \<and> res_receiptNo d = generateUniqueReceiptNumber e w (requestDate e p)"
    by blast
  note E = handleRecordPayment_Recorded_env [OF commit]
  have frame: "\<exists>d'.
           fst (handleRecordPayment (e\<lparr>receiptRandom := rr, nowFallback := nf\<rparr>) session p w)
             = StatusOk (Recorded d')
         \<and> res_receiptNo d'
             = generateUniqueReceiptNumber (e\<lparr>receiptRandom := rr, nowFallback := nf\<rparr>) w
                 (requestDate e p)
         \<and> Payments (snd (handleRecordPayment (e\<lparr>receiptRandom := rr, nowFallback := nf\<rparr>)
                             session p w)) = Payments w'" for rr nf
  proof -
    let ?e' = "e\<lparr>receiptRandom := rr, nowFallback := nf\<rparr>"
    have "\<exists>d' w'' stu'. handleRecordPayment ?e' session p w = (StatusOk (Recorded d'), w'')
           \<and> elig_student (?ev sess) = Some stu'
           \<and> Payments w'' = Some (rows @ [committedRow ?e' sess p stu'])"
      using I E by (intro handleRecordPayment_commits) (simp_all add: receipt_env_irrelevant)
    then obtain d' w'' and stu' :: student where
          c': "handleRecordPayment ?e' session p w = (StatusOk (Recorded d'), w'')"
      and s': "elig_student (?ev sess) = Some stu'"
      and p': "Payments w'' = Some (rows @ [committedRow ?e' sess p stu'])"
      by blast
    from handleRecordPayment_Recorded [OF c']
    have r': "res_receiptNo d' = generateUniqueReceiptNumber ?e' w (requestDate e p)"
      by (auto simp: receipt_env_irrelevant)
    have "stu' = stu" using s' I by simp
    with c' p' r' I show ?thesis
      by (simp add: receipt_env_irrelevant)
  qed
  show ?thesis
    using I E frame
    by (intro exI [of _ sess] exI [of _ rows] exI [of _ stu]) (simp add: committedRow_def)
qed


text \<open>
  The first payment of the examples: the ledger row holds \<open>r-001\<close>, the reference
  \<open>R-20240110-042\<close> is in the response and in the one audit entry; with other random
  draws the reference is \<open>R-20240110-007\<close> and the ledger is the same; and when
  \<open>logAction\<close> fails the payment is recorded all the same and the audit sheet stays
  empty.
\<close>

theorem system_receipt_not_in_ledger_witness:
  "Payments (snd (handleRecordPayment ex_env (Some ex_session) ex_payload ex_world))
     = Some [ex_payment80]
   \<and> PhysicalReceiptNo ex_payment80 = str ''r-001''
   \<and> (\<exists>d. fst (handleRecordPayment ex_env (Some ex_session) ex_payload ex_world)
            = StatusOk (Recorded d) \<and> res_receiptNo d = str ''R-20240110-042'')
   \<and> (\<exists>entry. AuditLog (snd (handleRecordPayment ex_env (Some ex_session) ex_payload ex_world))
                  = Some [entry]
         \<and> ActionType entry = str ''PAYMENT_RECORD'' \<and> RecordID entry = str ''P10007''
         \<and> det_systemReceiptNo (Details entry) = str ''R-20240110-042'')
   \<and> (\<exists>d'. fst (handleRecordPayment (ex_env\<lparr>receiptRandom := (\<lambda>attempt. 7), nowFallback := 5\<rparr>)
                   (Some ex_session) ex_payload ex_world) = StatusOk (Recorded d')
         \<and> res_receiptNo d' = str ''R-20240110-007''
         \<and> Payments (snd (handleRecordPayment
                             (ex_env\<lparr>receiptRandom := (\<lambda>attempt. 7), nowFallback := 5\<rparr>)
                             (Some ex_session) ex_payload ex_world)) = Some [ex_payment80])
   \<and> (\<exists>d. fst (handleRecordPayment (ex_env\<lparr>throws := (\<lambda>pt. pt = AtLogAction)\<rparr>)
                  (Some ex_session) ex_payload ex_world) = StatusOk (Recorded d)
         \<and> res_receiptNo d = str ''R-20240110-042'')
   \<and> AuditLog (snd (handleRecordPayment (ex_env\<lparr>throws := (\<lambda>pt. pt = AtLogAction)\<rparr>)
                       (Some ex_session) ex_payload ex_world)) = Some []"
proof -
  let ?e' = "ex_env\<lparr>receiptRandom := (\<lambda>attempt. 7), nowFallback := 5\<rparr>"
  let ?H = "handleRecordPayment ex_env (Some ex_session) ex_payload ex_world"
  have g: "generateUniqueReceiptNumber ?e' ex_world (requestDate ex_env ex_payload)
           = str ''R-20240110-007''"
    by (simp add: handler_defs js_defs parse_defs config_defs ex_defs requestDate_def)
  have p1: "Payments (snd ?H) = Some [ex_payment80]"
    by (simp add: ex_first_payment)
  have r1: "\<exists>d. fst ?H = StatusOk (Recorded d) \<and> res_receiptNo d = str ''R-20240110-042''"
    by (simp add: ex_first_payment)
  have nolog: "\<not> throws ex_env AtLogAction \<and> AuditLog ex_world = Some []"
    by (simp add: ex_env_def ex_world_def)
  note T = system_receipt_not_in_ledger [OF ex_first_payment]
  from T have "\<forall>entries. \<not> throws ex_env AtLogAction \<and> AuditLog ex_world = Some entries \<longrightarrow>
          (\<exists>entry. AuditLog (snd ?H) = Some (entries @ [entry])
             \<and> ActionType entry = str ''PAYMENT_RECORD'' \<and> RecordID entry = str ''P10007''
             \<and> det_systemReceiptNo (Details entry) = str ''R-20240110-042'')"
    by (elim exE conjE) (simp add: ex_first_payment)
  with nolog have a1: "\<exists>entry. AuditLog (snd ?H) = Some [entry]
         \<and> ActionType entry = str ''PAYMENT_RECORD'' \<and> RecordID entry = str ''P10007''
         \<and> det_systemReceiptNo (Details entry) = str ''R-20240110-042''"
    by fastforce
  from T have "\<forall>rr nf. \<exists>d'.
           fst (handleRecordPayment (ex_env\<lparr>receiptRandom := rr, nowFallback := nf\<rparr>)
                  (Some ex_session) ex_payload ex_world) = StatusOk (Recorded d')
         \<and> res_receiptNo d'
             = generateUniqueReceiptNumber (ex_env\<lparr>receiptRandom := rr, nowFallback := nf\<rparr>)
                 ex_world (requestDate ex_env ex_payload)
         \<and> Payments (snd (handleRecordPayment (ex_env\<lparr>receiptRandom := rr, nowFallback := nf\<rparr>)
                             (Some ex_session) ex_payload ex_world)) = Some [ex_payment80]"
    by (elim exE conjE) simp
  then have f1: "\<exists>d'. fst (handleRecordPayment ?e' (Some ex_session) ex_payload ex_world)
                  = StatusOk (Recorded d')
         \<and> res_receiptNo d' = str ''R-20240110-007''
         \<and> Payments (snd (handleRecordPayment ?e' (Some ex_session) ex_payload ex_world))
             = Some [ex_payment80]"
    unfolding g [symmetric] by blast
  have t1: "(\<exists>d. fst (handleRecordPayment (ex_env\<lparr>throws := (\<lambda>pt. pt = AtLogAction)\<rparr>)
                  (Some ex_session) ex_payload ex_world) = StatusOk (Recorded d)
         \<and> res_receiptNo d = str ''R-20240110-042'')
   \<and> AuditLog (snd (handleRecordPayment (ex_env\<lparr>throws := (\<lambda>pt. pt = AtLogAction)\<rparr>)
                       (Some ex_session) ex_payload ex_world)) = Some []"
    by (simp add: handler_defs js_defs parse_defs config_defs ex_defs)
  have q1: "PhysicalReceiptNo ex_payment80 = str ''r-001''"
    by (simp add: ex_payment80_def)
  from p1 q1 r1 a1 f1 t1 show ?thesis by blast
qed

section \<open>The in-lock re-check of the idempotency key\<close>

text \<open>
  Claim C5 fails on the code. The pre-lock check \<open>validateIdempotencyKey\<close> skips
  voided payments and payments created before the retention window, but the re-check
  inside the lock compares the key with every row. A request whose key is carried only
  by a voided payment, or only by a payment older than 24 hours, passes the pre-lock
  check as fresh, and is then answered inside the lock with that old payment as a
  duplicate; nothing is recorded.
\<close>

theorem in_lock_recheck_ignores_voided_and_window:
  "valid (validateIdempotencyKey
            (ex_world80\<lparr>Payments := Some [ex_payment80\<lparr>IsVoided := True\<rparr>]\<rparr>)
            (nowKey ex_env) (str ''k1''))
   \<and> handleRecordPayment ex_env (Some ex_session) (ex_payload20\<lparr>req_idempotencyKey := str ''k1''\<rparr>)
         (ex_world80\<lparr>Payments := Some [ex_payment80\<lparr>IsVoided := True\<rparr>]\<rparr>)
       = (StatusOk (Duplicate (str ''P10007'') (str ''payment already recorded (detected in lock)'')),
          ex_world80\<lparr>Payments := Some [ex_payment80\<lparr>IsVoided := True\<rparr>]\<rparr>)
   \<and> valid (validateIdempotencyKey ex_world80 (1000500 + 24 * 60 * 60 * 1000) (str ''k1''))
   \<and> handleRecordPayment (ex_env\<lparr>nowKey := 1000500 + 24 * 60 * 60 * 1000\<rparr>) (Some ex_session)
         (ex_payload20\<lparr>req_idempotencyKey := str ''k1''\<rparr>) ex_world80
       = (StatusOk (Duplicate (str ''P10007'') (str ''payment already recorded (detected in lock)'')),
          ex_world80)"
  by (simp add: handler_defs js_defs parse_defs config_defs ex_defs)

section \<open>The lock key\<close>

text \<open>
  Claim C3 is about concurrent executions, which this sequential model does not have.
  What the model shows of it: the lock that \<open>acquireLockWithRetry\<close> takes is the one
  script lock whatever the key, so requests for different students contend for the same
  lock as requests for the same student.
\<close>

theorem lock_is_independent_of_key:
  "acquireLockWithRetry e (str ''recordPayment_'' @ studentA) n w
     = acquireLockWithRetry e (str ''recordPayment_'' @ studentB) n w"
  by (simp add: acquireLockWithRetry_def)

end
